theory Spec2Isabelle
  imports Complex_Main
begin

section \<open>Ticket checkout of the events application (attendee\_checkout.py)\<close>

text \<open>
  The module \<^verbatim>\<open>attendee_checkout.py\<close> holds two request handlers, \<^verbatim>\<open>start\<close> and
  \<^verbatim>\<open>complete\<close>, and their helpers. The handlers read and write a MongoDB database and
  the Flask session; here both are explicit values that a handler takes and returns.

  Conventions of the embedding:
  \<^item> a document field that may be missing (\<^verbatim>\<open>d.get(k)\<close> returning \<^verbatim>\<open>None\<close>) is an
    \<open>option\<close>; string fields hold strings only;
  \<^item> a Python \<^verbatim>\<open>float\<close> is an IEEE double: a finite value, \<^verbatim>\<open>nan\<close> or an infinity;
    every operation rounds its exact result to the nearest double, a tie to the even
    mantissa. The sign of zero is not kept: no comparison of the module tells the two
    zeros apart;
  \<^item> an \<^verbatim>\<open>ObjectId\<close> is its 24-digit lower-case hexadecimal string; the identifiers that
    \<^verbatim>\<open>insert_one\<close> generates are drawn from a counter kept in the database value;
  \<^item> an instant of time is an integer (microseconds, UTC).
\<close>

subsection \<open>Configuration\<close>

record net =
  chain_id :: int
  chain_id_hex :: string
  chain_name :: string
  rpc_urls :: "string list"
  explorer :: string
  usdc :: string

definition ACTIVE_NETWORK :: string where
  "ACTIVE_NETWORK = ''mainnet''"

definition NETS :: "string \<Rightarrow> net option" where
  "NETS name =
     (if name = ''mainnet'' then
        Some \<lparr>chain_id = 8453, chain_id_hex = ''0x2105'', chain_name = ''Base'',
              rpc_urls = [''https://mainnet.base.org''], explorer = ''https://basescan.org'',
              usdc = ''0x833589fCD6eDb6E08f4c7C32D4f71b54bdA02913''\<rparr>
      else if name = ''sepolia'' then
        Some \<lparr>chain_id = 84532, chain_id_hex = ''0x14A34'', chain_name = ''Base Sepolia'',
              rpc_urls = [''https://sepolia.base.org''],
              explorer = ''https://sepolia.basescan.org'',
              usdc = ''0x0000000000000000000000000000000000000000''\<rparr>
      else None)"

definition DEFAULT_PAYOUT_ADDRESS :: string where
  "DEFAULT_PAYOUT_ADDRESS = ''0x98f869c3d188740ef666bbd97436f89c929826f7''"

subsection \<open>Strings and identifiers\<close>

text \<open>
  \<^verbatim>\<open>str.strip()\<close> removes the white space of Python at both ends. Among the one-byte
  characters these are 9 to 13, 28 to 32, 133 and 160.
\<close>

definition py_space :: "char \<Rightarrow> bool" where
  "py_space c = (c \<in> set [CHR 0x09, CHR 0x0A, CHR 0x0B, CHR 0x0C, CHR 0x0D, CHR 0x1C,
                           CHR 0x1D, CHR 0x1E, CHR 0x1F, CHR 0x20, CHR 0x85, CHR 0xA0])"

definition strip :: "string \<Rightarrow> string" where
  "strip s = rev (dropWhile py_space (rev (dropWhile py_space s)))"

text \<open>\<^verbatim>\<open>(v or "")\<close> for a field that is a string or missing.\<close>

definition or_empty :: "string option \<Rightarrow> string" where
  "or_empty v = (case v of None \<Rightarrow> [] | Some s \<Rightarrow> s)"

text \<open>Truth value of a string field: \<^verbatim>\<open>None\<close> and \<^verbatim>\<open>""\<close> are false.\<close>

definition truthy :: "string option \<Rightarrow> bool" where
  "truthy v = (case v of None \<Rightarrow> False | Some s \<Rightarrow> s \<noteq> [])"

text \<open>\<^verbatim>\<open>a or b or c\<close>: the first true operand, the last operand when none is.\<close>

fun py_or :: "string option list \<Rightarrow> string option" where
  "py_or [] = None"
| "py_or [v] = v"
| "py_or (v # vs) = (if truthy v then v else py_or vs)"

type_synonym oid = string

definition is_hex :: "char \<Rightarrow> bool" where
  "is_hex c = (c \<in> set ''0123456789abcdefABCDEF'')"

definition hex_lower :: "char \<Rightarrow> char" where
  "hex_lower c = (case map_of (zip ''ABCDEF'' ''abcdef'') c of None \<Rightarrow> c | Some l \<Rightarrow> l)"

text \<open>
  \<^verbatim>\<open>bytes.fromhex\<close>: pairs of hexadecimal digits, with ASCII white space allowed before
  a pair and at the end. The result is written here as the lower-case digits of the bytes.
\<close>

definition ascii_space :: "char \<Rightarrow> bool" where
  "ascii_space c = (c \<in> set [CHR 0x09, CHR 0x0A, CHR 0x0B, CHR 0x0C, CHR 0x0D, CHR 0x20])"

fun fromhex :: "string \<Rightarrow> string option" where
  "fromhex [] = Some []"
| "fromhex (c # cs) =
     (if ascii_space c then fromhex cs
      else (case cs of
              [] \<Rightarrow> None
            | d # ds \<Rightarrow>
                if is_hex c \<and> is_hex d
                then map_option (\<lambda>r. hex_lower c # hex_lower d # r) (fromhex ds)
                else None))"

text \<open>
  \<^verbatim>\<open>_to_oid\<close> calls \<^verbatim>\<open>ObjectId(str(maybe_id))\<close> of the bson library, which takes a string
  of 24 characters that \<^verbatim>\<open>bytes.fromhex\<close> reads and raises otherwise; the handler turns
  the exception into \<^verbatim>\<open>None\<close>. A missing value prints as \<^verbatim>\<open>"None"\<close> and is refused as
  well. The identifier of a stored document has 12 bytes, 24 digits; a string with white
  space in it gives a shorter identifier, which names no document.
\<close>

definition to_oid :: "string option \<Rightarrow> oid option" where
  "to_oid maybe_id =
     (case maybe_id of
        None \<Rightarrow> None
      | Some s \<Rightarrow> if length s = 24 then fromhex s else None)"

subsection \<open>Floating-point numbers\<close>

text \<open>
  A Python \<^verbatim>\<open>float\<close>. \<open>Fin x\<close> is the double of value \<open>x\<close>. \<open>fl\<close> rounds a rational to the
  nearest double: with \<open>2\<^sup>e \<le> |x| < 2\<^sup>e\<^sup>+\<^sup>1\<close> (and \<open>e\<close> at least \<open>-1022\<close>, below which
  doubles are equally spaced) the doubles near \<open>x\<close> are the multiples of \<open>2\<^sup>e\<^sup>-\<^sup>5\<^sup>2\<close>, and a
  result of \<open>2\<^sup>1\<^sup>0\<^sup>2\<^sup>4\<close> or more is an infinity.
\<close>

datatype pyfloat = Fin rat | NaN | PInf | NInf

text \<open>\<^verbatim>\<open>int.bit_length\<close>: the number of binary digits.\<close>

fun bit_length :: "nat \<Rightarrow> nat" where
  "bit_length n = (if n = 0 then 0 else Suc (bit_length (n div 2)))"

declare bit_length.simps [simp del]

definition pow2 :: "int \<Rightarrow> rat" where
  "pow2 k = (if 0 \<le> k then 2 ^ nat k else 1 / 2 ^ nat (- k))"

text \<open>For \<open>x > 0\<close>, the integer \<open>e\<close> with \<open>2\<^sup>e \<le> x < 2\<^sup>e\<^sup>+\<^sup>1\<close>.\<close>

definition ilog2 :: "rat \<Rightarrow> int" where
  "ilog2 x = (if 1 \<le> x then int (bit_length (nat \<lfloor>x\<rfloor>)) - 1
              else - int (bit_length (nat (\<lceil>1 / x\<rceil> - 1))))"

definition round_half_even :: "rat \<Rightarrow> int" where
  "round_half_even y =
     (let f = \<lfloor>y\<rfloor>;
          r = y - of_int f
      in if r < 1 / 2 then f else if 1 / 2 < r then f + 1 else if even f then f else f + 1)"

definition fl :: "rat \<Rightarrow> pyfloat" where
  "fl x =
     (if x = 0 then Fin 0
      else
        let e = max (ilog2 \<bar>x\<bar>) (- 1022);
            u = pow2 (e - 52);
            m = round_half_even (\<bar>x\<bar> / u)
        in if 1024 \<le> e \<or> (e = 1023 \<and> 2 ^ 53 \<le> m)
           then (if 0 < x then PInf else NInf)
           else Fin (if 0 < x then of_int m * u else - (of_int m * u)))"

text \<open>An \<^verbatim>\<open>int\<close> operand of a mixed operation, and a decimal literal of the program.\<close>

definition float_of_int :: "int \<Rightarrow> pyfloat" where
  "float_of_int n = fl (of_int n)"

fun f_mul :: "pyfloat \<Rightarrow> pyfloat \<Rightarrow> pyfloat" where
  "f_mul (Fin a) (Fin b) = fl (a * b)"
| "f_mul NaN _ = NaN"
| "f_mul _ NaN = NaN"
| "f_mul (Fin a) PInf = (if a = 0 then NaN else if 0 < a then PInf else NInf)"
| "f_mul (Fin a) NInf = (if a = 0 then NaN else if 0 < a then NInf else PInf)"
| "f_mul PInf (Fin b) = (if b = 0 then NaN else if 0 < b then PInf else NInf)"
| "f_mul NInf (Fin b) = (if b = 0 then NaN else if 0 < b then NInf else PInf)"
| "f_mul PInf PInf = PInf"
| "f_mul NInf NInf = PInf"
| "f_mul PInf NInf = NInf"
| "f_mul NInf PInf = NInf"

fun f_sub :: "pyfloat \<Rightarrow> pyfloat \<Rightarrow> pyfloat" where
  "f_sub (Fin a) (Fin b) = fl (a - b)"
| "f_sub NaN _ = NaN"
| "f_sub _ NaN = NaN"
| "f_sub PInf PInf = NaN"
| "f_sub NInf NInf = NaN"
| "f_sub PInf _ = PInf"
| "f_sub NInf _ = NInf"
| "f_sub (Fin a) PInf = NInf"
| "f_sub (Fin a) NInf = PInf"

fun f_abs :: "pyfloat \<Rightarrow> pyfloat" where
  "f_abs (Fin a) = Fin \<bar>a\<bar>"
| "f_abs NaN = NaN"
| "f_abs PInf = PInf"
| "f_abs NInf = PInf"

text \<open>\<^verbatim>\<open>a > b\<close>: false when an operand is \<^verbatim>\<open>nan\<close>.\<close>

fun f_gt :: "pyfloat \<Rightarrow> pyfloat \<Rightarrow> bool" where
  "f_gt (Fin a) (Fin b) = (b < a)"
| "f_gt NaN _ = False"
| "f_gt _ NaN = False"
| "f_gt PInf PInf = False"
| "f_gt PInf _ = True"
| "f_gt NInf _ = False"
| "f_gt (Fin a) NInf = True"
| "f_gt (Fin a) PInf = False"

subsection \<open>Documents\<close>

record tier =
  t_name :: "string option"
  t_price :: pyfloat
  t_supply :: int
  t_per_order_limit :: int
  t_sales_start :: "int option"
  t_sales_end :: "int option"

text \<open>
  \<open>t_price\<close> (a float), \<open>t_supply\<close> and \<open>t_per_order_limit\<close> are the values of
  \<^verbatim>\<open>float(tier.get("price") or 0.0)\<close>, \<^verbatim>\<open>int(tier.get("supply") or 0)\<close> and
  \<^verbatim>\<open>int(tier.get("per_order_limit") or 0)\<close>; \<open>t_sales_start\<close> and \<open>t_sales_end\<close> are
  the results of \<^verbatim>\<open>_parse_sales_bound\<close> on the stored bounds (\<open>None\<close> for a missing or
  unreadable bound).
\<close>

record event =
  ev_status :: string
  ev_title :: "string option"
  ev_tiers :: "tier list"
  ev_organizer_id :: "string option"
  ev_organizer_user_id :: "string option"
  ev_organizer :: "string option"
  ev_payout_address :: "string option"
  ev_organizer_payout_address :: "string option"
  ev_treasury_address :: "string option"
  ev_usdc_payout :: "string option"
  ev_wallet_address :: "string option"

text \<open>An organizer document and a user document, reduced to the fields the resolver projects.\<close>

record party =
  p_payout_address :: "string option"
  p_wallet_address :: "string option"
  p_treasury_wallet :: "string option"
  p_usdc_wallet :: "string option"
  p_billing_payout_address :: "string option"
  p_settings_payout_address :: "string option"

record payment =
  pay_id :: nat
  pay_attendee_id :: string
  pay_organizer_id :: "string option"
  pay_event_id :: oid
  pay_tier_index :: int
  pay_quantity :: int
  pay_unit_price :: pyfloat
  pay_amount :: pyfloat
  pay_currency :: string
  pay_status :: string
  pay_method :: string
  pay_tx_hash :: "string option"
  pay_payer :: string
  pay_pay_to :: string
  pay_chain_id :: int
  pay_base_payment_id :: "string option"
  pay_base_status :: "string option"
  pay_base_status_raw :: "string option"
  pay_created_at :: int

record transaction =
  tx_id :: nat
  tx_kind :: string
  tx_attendee_id :: string
  tx_organizer_id :: "string option"
  tx_event_id :: oid
  tx_tier_index :: int
  tx_quantity :: int
  tx_amount :: pyfloat
  tx_currency :: string
  tx_to :: string
  tx_from :: "string option"
  tx_tx_hash :: "string option"
  tx_base_payment_id :: "string option"
  tx_base_status :: "string option"
  tx_chain_id :: int
  tx_created_at :: int
  tx_payment_id :: nat

record ticket =
  tk_id :: nat
  tk_event_id :: oid
  tk_tier_index :: int
  tk_attendee_id :: string
  tk_price :: pyfloat
  tk_purchased_at :: int
  tk_payment_id :: nat
  tk_status :: string

text \<open>
  The database. \<open>events\<close> maps the \<^verbatim>\<open>_id\<close> of an event to its document. The collections
  \<open>organizers\<close> and \<open>users\<close> may not exist (\<open>None\<close>), which the resolver tests with
  \<^verbatim>\<open>list_collection_names\<close>. A collection that is written to is a list in insertion
  order; counting in a collection that does not exist yet gives 0, as counting in the
  empty list does. \<open>next_oid\<close> is the source of fresh \<^verbatim>\<open>_id\<close> values.
\<close>

record db =
  events :: "oid \<rightharpoonup> event"
  organizers :: "(oid \<rightharpoonup> party) option"
  users :: "(oid \<rightharpoonup> party) option"
  payments :: "payment list"
  transactions :: "transaction list"
  tickets :: "ticket list"
  next_oid :: nat

subsection \<open>Sales window and availability\<close>

definition tier_sales_open :: "tier \<Rightarrow> int \<Rightarrow> bool" where
  "tier_sales_open tr now_utc =
     (if (case t_sales_start tr of Some s \<Rightarrow> now_utc < s | None \<Rightarrow> False) then False
      else if (case t_sales_end tr of Some e \<Rightarrow> now_utc > e | None \<Rightarrow> False) then False
      else True)"

record availability =
  a_supply :: int
  a_sold :: int
  a_available :: int

definition count_tickets :: "db \<Rightarrow> oid \<Rightarrow> int \<Rightarrow> int" where
  "count_tickets d event_id_str tier_idx =
     int (length (filter (\<lambda>k. tk_event_id k = event_id_str \<and> tk_tier_index k = tier_idx)
                         (tickets d)))"

definition tier_availability :: "db \<Rightarrow> oid \<Rightarrow> int \<Rightarrow> tier \<Rightarrow> availability" where
  "tier_availability d event_id_str tier_idx tr =
     (let supply = t_supply tr;
          sold = count_tickets d event_id_str tier_idx;
          available = (if supply \<noteq> 0 then max 0 (supply - sold) else 0)
      in \<lparr>a_supply = supply, a_sold = sold, a_available = available\<rparr>)"

subsection \<open>Payout resolution\<close>

definition norm_addr :: "string option \<Rightarrow> string" where
  "norm_addr addr =
     (let a = strip (or_empty addr)
      in if take 2 a = ''0x'' \<and> length a = 42 then a else [])"

fun pick :: "string option list \<Rightarrow> string" where
  "pick [] = []"
| "pick (None # vs) = pick vs"
| "pick (Some v # vs) = (if strip v \<noteq> [] then strip v else pick vs)"

text \<open>
  The loop over the four top-level keys followed by the \<^verbatim>\<open>billing\<close> and \<^verbatim>\<open>settings\<close>
  sub-documents: the first field whose normal form is not empty.
\<close>

fun first_norm :: "string option list \<Rightarrow> string" where
  "first_norm [] = []"
| "first_norm (v # vs) = (if norm_addr v \<noteq> [] then norm_addr v else first_norm vs)"

definition party_fields :: "party \<Rightarrow> string option list" where
  "party_fields p =
     [p_payout_address p, p_wallet_address p, p_treasury_wallet p, p_usdc_wallet p,
      p_billing_payout_address p, p_settings_payout_address p]"

text \<open>
  One of the two look-ups by organizer id: skipped when the id is no \<^verbatim>\<open>ObjectId\<close> or the
  collection does not exist; a document that is not found counts as the empty document.
\<close>

definition lookup_party :: "oid option \<Rightarrow> (oid \<rightharpoonup> party) option \<Rightarrow> string" where
  "lookup_party oid coll =
     (case oid of
        None \<Rightarrow> []
      | Some i \<Rightarrow>
          (case coll of
             None \<Rightarrow> []
           | Some c \<Rightarrow> (case c i of None \<Rightarrow> [] | Some p \<Rightarrow> first_norm (party_fields p))))"

definition find_payout_address :: "db \<Rightarrow> event \<Rightarrow> string" where
  "find_payout_address d ev =
     (let cand = pick [ev_payout_address ev, ev_organizer_payout_address ev,
                       ev_treasury_address ev, ev_usdc_payout ev, ev_wallet_address ev]
      in if norm_addr (Some cand) \<noteq> [] then cand
         else
           let org_id = py_or [ev_organizer_id ev, ev_organizer_user_id ev, ev_organizer ev];
               oid = to_oid org_id;
               from_org = lookup_party oid (organizers d)
           in if from_org \<noteq> [] then from_org
              else
                let from_user = lookup_party oid (users d)
                in if from_user \<noteq> [] then from_user
                   else norm_addr (Some DEFAULT_PAYOUT_ADDRESS))"

subsection \<open>Amounts\<close>

definition USDC_DECIMALS :: nat where
  "USDC_DECIMALS = 6"

text \<open>
  \<^verbatim>\<open>round(x, ndigits)\<close> on a float: the exact value of the double is rounded to the
  nearest multiple of \<open>10\<^sup>-\<^sup>n\<close>, a tie to the even one, and that decimal is read back
  as a double; \<^verbatim>\<open>nan\<close> and the infinities are returned as they are. \<open>decimal_round\<close> is
  the decimal in between.
\<close>

definition decimal_round :: "rat \<Rightarrow> nat \<Rightarrow> rat" where
  "decimal_round x ndigits = of_int (round_half_even (x * 10 ^ ndigits)) / 10 ^ ndigits"

fun py_round :: "pyfloat \<Rightarrow> nat \<Rightarrow> pyfloat" where
  "py_round (Fin x) ndigits = fl (decimal_round x ndigits)"
| "py_round NaN ndigits = NaN"
| "py_round PInf ndigits = PInf"
| "py_round NInf ndigits = NInf"

subsection \<open>Requests, session and results\<close>

text \<open>
  A numeric request field before \<^verbatim>\<open>int(...)\<close> is applied: \<open>Missing\<close> (absent, or empty
  in a query string), \<open>Num n\<close> (a value that \<^verbatim>\<open>int\<close> reads as \<open>n\<close>), or \<open>Malformed\<close> (a
  value on which \<^verbatim>\<open>int\<close> raises).
\<close>

datatype num_field = Missing | Num int | Malformed

text \<open>
  The field \<^verbatim>\<open>amountUSDC\<close>, which the handler prints with \<^verbatim>\<open>str\<close> and reads back
  with \<^verbatim>\<open>float\<close>: \<open>NoAmount\<close> (absent or false, read as \<^verbatim>\<open>"0"\<close>), \<open>Amount x\<close> (a
  number, or a string that is a numeral, of value \<open>x\<close>, which \<^verbatim>\<open>float\<close> rounds to a
  double), \<open>AmountNaN\<close>, \<open>AmountInf\<close> and \<open>AmountNegInf\<close> (\<^verbatim>\<open>nan\<close>, \<^verbatim>\<open>inf\<close> and
  \<^verbatim>\<open>-inf\<close> in any of their spellings), or \<open>BadAmount\<close> (a value on which \<^verbatim>\<open>float\<close>
  raises).
\<close>

datatype amount_field =
  NoAmount | Amount rat | AmountNaN | AmountInf | AmountNegInf | BadAmount

record request =
  r_eventId :: "string option"
  r_tierIdx :: num_field
  r_quantity :: num_field
  r_from :: "string option"
  r_to :: "string option"
  r_chainId :: num_field
  r_amountUSDC :: amount_field
  r_basePaymentId :: "string option"
  r_baseStatus :: "string option"
  r_baseStatusRaw :: "string option"
  r_txHash :: "string option"

text \<open>The entry \<^verbatim>\<open>session["checkout_current"]\<close> that \<^verbatim>\<open>start\<close> stores.\<close>

record quote =
  q_event_id :: string
  q_tier_idx :: int
  q_quantity :: int
  q_unit_price :: pyfloat
  q_amount :: pyfloat
  q_max_allowed :: int
  q_payout :: string
  q_chain_id :: int
  q_usdc :: string

record session =
  uid :: "string option"
  checkout_current :: "quote option"

text \<open>
  The ways \<^verbatim>\<open>complete\<close> ends without writing: its JSON errors, and an exception that no
  handler catches (\<^verbatim>\<open>int\<close> on a malformed field), which Flask answers with status 500.
\<close>

datatype error =
    not_logged_in | invalid_payload | bad_event | not_found | bad_tier | sold_out
  | amount_mismatch | unhandled_exception

text \<open>The JSON answer of a successful call, without its constant fields and the redirect.\<close>

record complete_ok =
  ok_payment_id :: nat
  ok_base_payment_id :: "string option"

text \<open>The ways \<^verbatim>\<open>start\<close> ends without a checkout page: a redirect with a flash message, or 404.\<close>

datatype start_error =
    please_log_in | invalid_selection | abort_404 | invalid_tier | sales_window_closed
  | tier_sold_out | payout_not_configured | config_error

definition or_none :: "string \<Rightarrow> string option" where
  "or_none s = (if s \<noteq> [] then Some s else None)"

definition int_or :: "num_field \<Rightarrow> int \<Rightarrow> int option" where
  "int_or v dflt = (case v of Missing \<Rightarrow> Some dflt | Num n \<Rightarrow> Some n | Malformed \<Rightarrow> None)"

subsection \<open>The handler \<^verbatim>\<open>start\<close>\<close>

text \<open>
  The quantity of a quote, from the requested quantity and the greatest quantity allowed:
  \<^verbatim>\<open>qty = qty_req or 1\<close>, then \<^verbatim>\<open>if qty > max_allowed: qty = max_allowed\<close>, then
  \<^verbatim>\<open>if qty < 1: qty = 1\<close>.
\<close>

definition clamp_quantity :: "int \<Rightarrow> int \<Rightarrow> int" where
  "clamp_quantity qty_req max_allowed =
     (let qty0 = (if qty_req \<noteq> 0 then qty_req else 1);
          qty1 = (if qty0 > max_allowed then max_allowed else qty0)
      in if qty1 < 1 then 1 else qty1)"

definition start ::
  "db \<Rightarrow> session \<Rightarrow> string option \<Rightarrow> num_field \<Rightarrow> num_field \<Rightarrow> int
     \<Rightarrow> session \<times> (start_error + quote)" where
  "start d sess arg_event_id arg_tier_idx arg_quantity now =
     (if uid sess = None then (sess, Inl please_log_in)
      else
        let event_id = or_empty arg_event_id in
        case (int_or arg_tier_idx (- 1), int_or arg_quantity 0) of
          (Some tier_idx, Some qty_req) \<Rightarrow>
            (case to_oid (Some event_id) of
               None \<Rightarrow> (sess, Inl abort_404)
             | Some oid \<Rightarrow>
                 (case events d oid of
                    None \<Rightarrow> (sess, Inl abort_404)
                  | Some ev \<Rightarrow>
                      if ev_status ev \<noteq> ''published'' then (sess, Inl abort_404)
                      else
                        let tiers = ev_tiers ev in
                        if tier_idx < 0 \<or> tier_idx \<ge> int (length tiers)
                        then (sess, Inl invalid_tier)
                        else
                          let tr = tiers ! nat tier_idx in
                          if \<not> tier_sales_open tr now then (sess, Inl sales_window_closed)
                          else
                            let avail = tier_availability d oid tier_idx tr in
                            if a_available avail \<le> 0 then (sess, Inl tier_sold_out)
                            else
                              let per_order_limit = t_per_order_limit tr;
                                  max_allowed = (if per_order_limit > 0 then per_order_limit
                                                 else a_available avail);
                                  qty = clamp_quantity qty_req max_allowed;
                                  price = t_price tr;
                                  amount = py_round (f_mul price (float_of_int qty))
                                             USDC_DECIMALS;
                                  payout = find_payout_address d ev
                              in if payout = [] then (sess, Inl payout_not_configured)
                                 else
                                   (case NETS ACTIVE_NETWORK of
                                      None \<Rightarrow> (sess, Inl config_error)
                                    | Some nt \<Rightarrow>
                                        let q = \<lparr>q_event_id = event_id, q_tier_idx = tier_idx,
                                                 q_quantity = qty, q_unit_price = price,
                                                 q_amount = amount, q_max_allowed = max_allowed,
                                                 q_payout = payout, q_chain_id = chain_id nt,
                                                 q_usdc = usdc nt\<rparr>
                                        in (sess\<lparr>checkout_current := Some q\<rparr>, Inr q))))
        | _ \<Rightarrow> (sess, Inl invalid_selection))"

subsection \<open>The handler \<^verbatim>\<open>complete\<close>\<close>

definition insert_payment :: "payment \<Rightarrow> db \<Rightarrow> db \<times> nat" where
  "insert_payment doc d =
     (d\<lparr>payments := payments d @ [doc\<lparr>pay_id := next_oid d\<rparr>], next_oid := next_oid d + 1\<rparr>,
      next_oid d)"

definition insert_transaction :: "transaction \<Rightarrow> db \<Rightarrow> db" where
  "insert_transaction doc d =
     d\<lparr>transactions := transactions d @ [doc\<lparr>tx_id := next_oid d\<rparr>],
       next_oid := next_oid d + 1\<rparr>"

definition insert_ticket :: "ticket \<Rightarrow> db \<Rightarrow> db" where
  "insert_ticket doc d =
     d\<lparr>tickets := tickets d @ [doc\<lparr>tk_id := next_oid d\<rparr>], next_oid := next_oid d + 1\<rparr>"

text \<open>The loop \<^verbatim>\<open>for _ in range(qty): db.tickets.insert_one({...})\<close>.\<close>

fun issue_tickets :: "nat \<Rightarrow> ticket \<Rightarrow> db \<Rightarrow> db" where
  "issue_tickets 0 doc d = d"
| "issue_tickets (Suc n) doc d = issue_tickets n doc (insert_ticket doc d)"

text \<open>
  \<^verbatim>\<open>paid_amount\<close>: \<^verbatim>\<open>round(float(amount_u), USDC_DECIMALS)\<close>, and \<open>-1\<close> when \<^verbatim>\<open>float\<close>
  raises.
\<close>

definition paid_amount_of :: "amount_field \<Rightarrow> pyfloat" where
  "paid_amount_of a =
     (case a of
        NoAmount \<Rightarrow> py_round (fl 0) USDC_DECIMALS
      | Amount x \<Rightarrow> py_round (fl x) USDC_DECIMALS
      | AmountNaN \<Rightarrow> py_round NaN USDC_DECIMALS
      | AmountInf \<Rightarrow> py_round PInf USDC_DECIMALS
      | AmountNegInf \<Rightarrow> py_round NInf USDC_DECIMALS
      | BadAmount \<Rightarrow> float_of_int (- 1))"

text \<open>
  The tail of \<^verbatim>\<open>complete\<close>, from \<^verbatim>\<open>now_dt\<close> on: once every check has passed, the
  handler inserts the payment, the transaction and the tickets, and answers with the
  identifiers. \<open>attendee\<close> is \<^verbatim>\<open>session["uid"]\<close>, \<open>oid\<close> the \<^verbatim>\<open>_id\<close> of \<open>ev\<close>. The
  three documents are the dictionaries the handler builds; their \<^verbatim>\<open>_id\<close> is set on
  insertion.
\<close>

definition pay_doc ::
  "string \<Rightarrow> request \<Rightarrow> oid \<Rightarrow> event \<Rightarrow> int \<Rightarrow> int \<Rightarrow> int \<Rightarrow> int \<Rightarrow> payment" where
  "pay_doc attendee data oid ev tier_idx qty chain now_dt =
     (let payer = strip (or_empty (r_from data));
          paid_to = strip (or_empty (r_to data));
          base_payment_id = strip (or_empty (r_basePaymentId data));
          base_status = strip (or_empty (r_baseStatus data));
          base_status_raw = r_baseStatusRaw data;
          tx_hash = strip (or_empty (r_txHash data));
          price = t_price (ev_tiers ev ! nat tier_idx);
          expected_amount = py_round (f_mul price (float_of_int qty)) USDC_DECIMALS;
          payment_method = ''base_pay'';
          payment_status = (if base_status \<noteq> [] then ''paid'' else ''onchain_confirmed'')
      in \<lparr>pay_id = 0, pay_attendee_id = attendee, pay_organizer_id = ev_organizer_id ev,
          pay_event_id = oid, pay_tier_index = tier_idx, pay_quantity = qty,
          pay_unit_price = price, pay_amount = expected_amount, pay_currency = ''USDC'',
          pay_status = payment_status, pay_method = payment_method,
          pay_tx_hash = or_none tx_hash, pay_payer = payer, pay_pay_to = paid_to,
          pay_chain_id = chain, pay_base_payment_id = or_none base_payment_id,
          pay_base_status = or_none base_status,
          pay_base_status_raw = (if truthy base_status_raw then base_status_raw else None),
          pay_created_at = now_dt\<rparr>)"

definition tx_doc ::
  "string \<Rightarrow> request \<Rightarrow> oid \<Rightarrow> event \<Rightarrow> int \<Rightarrow> int \<Rightarrow> int \<Rightarrow> int \<Rightarrow> nat
     \<Rightarrow> transaction" where
  "tx_doc attendee data oid ev tier_idx qty chain now_dt payment_id =
     (let payer = strip (or_empty (r_from data));
          paid_to = strip (or_empty (r_to data));
          base_payment_id = strip (or_empty (r_basePaymentId data));
          base_status = strip (or_empty (r_baseStatus data));
          tx_hash = strip (or_empty (r_txHash data));
          price = t_price (ev_tiers ev ! nat tier_idx);
          expected_amount = py_round (f_mul price (float_of_int qty)) USDC_DECIMALS
      in \<lparr>tx_id = 0, tx_kind = ''ticket_purchase'', tx_attendee_id = attendee,
          tx_organizer_id = ev_organizer_id ev, tx_event_id = oid,
          tx_tier_index = tier_idx, tx_quantity = qty, tx_amount = expected_amount,
          tx_currency = ''USDC'', tx_to = paid_to, tx_from = or_none payer,
          tx_tx_hash = or_none tx_hash, tx_base_payment_id = or_none base_payment_id,
          tx_base_status = or_none base_status, tx_chain_id = chain,
          tx_created_at = now_dt, tx_payment_id = payment_id\<rparr>)"

definition ticket_doc :: "string \<Rightarrow> oid \<Rightarrow> event \<Rightarrow> int \<Rightarrow> int \<Rightarrow> nat \<Rightarrow> ticket" where
  "ticket_doc attendee oid ev tier_idx now_dt payment_id =
     \<lparr>tk_id = 0, tk_event_id = oid, tk_tier_index = tier_idx, tk_attendee_id = attendee,
      tk_price = t_price (ev_tiers ev ! nat tier_idx), tk_purchased_at = now_dt,
      tk_payment_id = payment_id, tk_status = ''valid''\<rparr>"

definition record_purchase ::
  "db \<Rightarrow> string \<Rightarrow> request \<Rightarrow> oid \<Rightarrow> event \<Rightarrow> int \<Rightarrow> int \<Rightarrow> int \<Rightarrow> int
     \<Rightarrow> db \<times> complete_ok" where
  "record_purchase d attendee data oid ev tier_idx qty chain now_dt =
     (case insert_payment (pay_doc attendee data oid ev tier_idx qty chain now_dt) d of
        (d1, payment_id) \<Rightarrow>
          let d2 = insert_transaction
                     (tx_doc attendee data oid ev tier_idx qty chain now_dt payment_id) d1;
              d3 = issue_tickets (nat qty)
                     (ticket_doc attendee oid ev tier_idx now_dt payment_id) d2
          in (d3, \<lparr>ok_payment_id = payment_id,
                   ok_base_payment_id = or_none (strip (or_empty (r_basePaymentId data)))\<rparr>))"

text \<open>
  The amount check of \<^verbatim>\<open>complete\<close>:
  \<^verbatim>\<open>expected_amount > 0 and abs(paid_amount - expected_amount) > 1e-6\<close>.
\<close>

definition amount_rejected :: "tier \<Rightarrow> int \<Rightarrow> amount_field \<Rightarrow> bool" where
  "amount_rejected tr qty amount_u =
     (let price = t_price tr;
          expected_amount = py_round (f_mul price (float_of_int qty)) USDC_DECIMALS;
          paid_amount = paid_amount_of amount_u
      in f_gt expected_amount (float_of_int 0)
         \<and> f_gt (f_abs (f_sub paid_amount expected_amount)) (fl (1 / 1000000)))"

definition complete :: "db \<Rightarrow> session \<Rightarrow> request \<Rightarrow> int \<Rightarrow> db \<times> (error + complete_ok)" where
  "complete d sess data now_dt =
     (case uid sess of
        None \<Rightarrow> (d, Inl not_logged_in)
      | Some attendee \<Rightarrow>
         (case (int_or (r_tierIdx data) (- 1), int_or (r_quantity data) 0,
                int_or (r_chainId data) 0) of
            (Some tier_idx, Some qty, Some chain) \<Rightarrow>
              let event_id = r_eventId data;
                  paid_to = strip (or_empty (r_to data))
              in
              if \<not> (truthy event_id \<and> qty > 0 \<and> chain \<noteq> 0 \<and> paid_to \<noteq> [])
              then (d, Inl invalid_payload)
              else
                (case to_oid event_id of
                   None \<Rightarrow> (d, Inl bad_event)
                 | Some oid \<Rightarrow>
                    (case events d oid of
                       None \<Rightarrow> (d, Inl not_found)
                     | Some ev \<Rightarrow>
                        if ev_status ev \<noteq> ''published'' then (d, Inl not_found)
                        else
                          let tiers = ev_tiers ev in
                          if tier_idx < 0 \<or> tier_idx \<ge> int (length tiers)
                          then (d, Inl bad_tier)
                          else
                            let tr = tiers ! nat tier_idx;
                                avail = tier_availability d oid tier_idx tr
                            in
                            if qty > a_available avail then (d, Inl sold_out)
                            else if amount_rejected tr qty (r_amountUSDC data)
                            then (d, Inl amount_mismatch)
                            else
                              (case record_purchase d attendee data oid ev tier_idx qty
                                      chain now_dt of
                                 (d', ok) \<Rightarrow> (d', Inr ok))))
          | _ \<Rightarrow> (d, Inl unhandled_exception)))"

subsection \<open>Predicates used in the statements\<close>

text \<open>
  The checks of \<^verbatim>\<open>complete\<close> up to and including the tier bounds, with the values they
  bind: the session holds a user \<open>a\<close>, the numeric fields read as \<open>ti\<close>, \<open>q\<close> and \<open>c\<close>,
  the payload is valid, the event identifier parses to \<open>oid\<close> and names the published
  event \<open>ev\<close>, and \<open>ti\<close> is an index into its tiers.
\<close>

definition request_resolves ::
  "db \<Rightarrow> session \<Rightarrow> request \<Rightarrow> string \<Rightarrow> oid \<Rightarrow> event \<Rightarrow> int \<Rightarrow> int \<Rightarrow> int \<Rightarrow> bool" where
  "request_resolves d sess data a oid ev ti q c =
     (uid sess = Some a \<and> int_or (r_tierIdx data) (- 1) = Some ti
      \<and> int_or (r_quantity data) 0 = Some q \<and> int_or (r_chainId data) 0 = Some c
      \<and> truthy (r_eventId data) \<and> q > 0 \<and> c \<noteq> 0 \<and> strip (or_empty (r_to data)) \<noteq> []
      \<and> to_oid (r_eventId data) = Some oid \<and> events d oid = Some ev
      \<and> ev_status ev = ''published'' \<and> 0 \<le> ti \<and> ti < int (length (ev_tiers ev)))"

text \<open>
  The capacity invariant: for every stored event and every tier of it, the number of
  ticket rows of that tier lies between 0 and the supply of the tier.
\<close>

definition capacity_inv :: "db \<Rightarrow> bool" where
  "capacity_inv d =
     (\<forall>oid ev. events d oid = Some ev \<longrightarrow>
        (\<forall>i < length (ev_tiers ev).
           0 \<le> count_tickets d oid (int i)
           \<and> count_tickets d oid (int i) \<le> t_supply (ev_tiers ev ! i)))"

subsection \<open>Example data\<close>

definition ex_oid :: oid where
  "ex_oid = ''64b7f0c2a1d3e4f5a6b7c8d9''"

definition ex_tier :: tier where
  "ex_tier = \<lparr>t_name = Some ''General'', t_price = Fin 10, t_supply = 3, t_per_order_limit = 0,
              t_sales_start = None, t_sales_end = None\<rparr>"

definition ex_event :: event where
  "ex_event = \<lparr>ev_status = ''published'', ev_title = Some ''Launch'', ev_tiers = [ex_tier],
               ev_organizer_id = None, ev_organizer_user_id = None, ev_organizer = None,
               ev_payout_address = None, ev_organizer_payout_address = None,
               ev_treasury_address = None, ev_usdc_payout = None, ev_wallet_address = None\<rparr>"

definition ex_db :: db where
  "ex_db = \<lparr>events = [ex_oid \<mapsto> ex_event], organizers = None, users = None, payments = [],
            transactions = [], tickets = [], next_oid = 0\<rparr>"

definition ex_session :: session where
  "ex_session = \<lparr>uid = Some ''u1'', checkout_current = None\<rparr>"

text \<open>A claim for one unit of the example tier, paid on Base main net to the fall-back address.\<close>

definition ex_request :: request where
  "ex_request = \<lparr>r_eventId = Some ex_oid, r_tierIdx = Num 0, r_quantity = Num 1,
                 r_from = Some ''0x1111111111111111111111111111111111111111'',
                 r_to = Some DEFAULT_PAYOUT_ADDRESS, r_chainId = Num 8453,
                 r_amountUSDC = Amount 10, r_basePaymentId = Some ''pay_1'',
                 r_baseStatus = Some ''succeeded'', r_baseStatusRaw = None,
                 r_txHash = None\<rparr>"



text \<open>The example database after the example request has been completed once, at instant 0.\<close>

definition ex_payment :: payment where
  "ex_payment =
     \<lparr>pay_id = 0, pay_attendee_id = ''u1'', pay_organizer_id = None, pay_event_id = ex_oid,
      pay_tier_index = 0, pay_quantity = 1, pay_unit_price = Fin 10, pay_amount = Fin 10,
      pay_currency = ''USDC'', pay_status = ''paid'', pay_method = ''base_pay'',
      pay_tx_hash = None, pay_payer = ''0x1111111111111111111111111111111111111111'',
      pay_pay_to = DEFAULT_PAYOUT_ADDRESS, pay_chain_id = 8453,
      pay_base_payment_id = Some ''pay_1'', pay_base_status = Some ''succeeded'',
      pay_base_status_raw = None, pay_created_at = 0\<rparr>"

definition ex_transaction :: transaction where
  "ex_transaction =
     \<lparr>tx_id = 1, tx_kind = ''ticket_purchase'', tx_attendee_id = ''u1'',
      tx_organizer_id = None, tx_event_id = ex_oid, tx_tier_index = 0, tx_quantity = 1,
      tx_amount = Fin 10, tx_currency = ''USDC'', tx_to = DEFAULT_PAYOUT_ADDRESS,
      tx_from = Some ''0x1111111111111111111111111111111111111111'', tx_tx_hash = None,
      tx_base_payment_id = Some ''pay_1'', tx_base_status = Some ''succeeded'',
      tx_chain_id = 8453, tx_created_at = 0, tx_payment_id = 0\<rparr>"

definition ex_ticket :: ticket where
  "ex_ticket =
     \<lparr>tk_id = 2, tk_event_id = ex_oid, tk_tier_index = 0, tk_attendee_id = ''u1'',
      tk_price = Fin 10, tk_purchased_at = 0, tk_payment_id = 0, tk_status = ''valid''\<rparr>"

definition ex_db_after :: db where
  "ex_db_after = ex_db\<lparr>payments := [ex_payment], transactions := [ex_transaction],
                       tickets := [ex_ticket], next_oid := 3\<rparr>"


definition refs_issued :: "db \<Rightarrow> bool" where
  "refs_issued d = (\<forall>k \<in> set (tickets d). tk_payment_id k < next_oid d)"

text \<open>
  The checks of \<^verbatim>\<open>start\<close> that a request has to pass before the quantity is looked
  at, with the values they bind: a user is logged in, the tier argument reads as \<open>ti\<close>,
  the event argument parses to \<open>oid\<close> and names the published event \<open>ev\<close>, \<open>ti\<close> is
  an index into its tiers, the sales window of that tier is open and a unit is available.
\<close>

definition start_resolves ::
  "db \<Rightarrow> session \<Rightarrow> string option \<Rightarrow> num_field \<Rightarrow> int \<Rightarrow> int \<Rightarrow> oid \<Rightarrow> event \<Rightarrow> bool" where
  "start_resolves d sess eid tidx now ti oid ev =
     (uid sess \<noteq> None \<and> int_or tidx (- 1) = Some ti
      \<and> to_oid (Some (or_empty eid)) = Some oid \<and> events d oid = Some ev
      \<and> ev_status ev = ''published'' \<and> 0 \<le> ti \<and> ti < int (length (ev_tiers ev))
      \<and> tier_sales_open (ev_tiers ev ! nat ti) now
      \<and> 0 < a_available (tier_availability d oid ti (ev_tiers ev ! nat ti)))"

text \<open>
  Two more tiers for the example event: one with supply 2 and a limit of 5 per order, one
  with supply 10 and a limit of 2 per order.
\<close>

definition ex_tier_limit5 :: tier where
  "ex_tier_limit5 = ex_tier\<lparr>t_supply := 2, t_per_order_limit := 5\<rparr>"

definition ex_db_limit5 :: db where
  "ex_db_limit5 = ex_db\<lparr>events := [ex_oid \<mapsto> ex_event\<lparr>ev_tiers := [ex_tier_limit5]\<rparr>]\<rparr>"

definition ex_tier_limit2 :: tier where
  "ex_tier_limit2 = ex_tier\<lparr>t_supply := 10, t_per_order_limit := 2\<rparr>"

definition ex_db_limit2 :: db where
  "ex_db_limit2 = ex_db\<lparr>events := [ex_oid \<mapsto> ex_event\<lparr>ev_tiers := [ex_tier_limit2]\<rparr>]\<rparr>"

text \<open>
  Two notions of a valid payout address. The specification asks for \<open>0x\<close> followed by 40
  hexadecimal characters; \<^verbatim>\<open>_norm_addr\<close> accepts any string of 42 characters that starts
  with \<open>0x\<close>.
\<close>

definition syntactically_valid :: "string \<Rightarrow> bool" where
  "syntactically_valid s = (take 2 s = ''0x'' \<and> length s = 42 \<and> list_all is_hex (drop 2 s))"

definition accepted_form :: "string \<Rightarrow> bool" where
  "accepted_form s = (take 2 s = ''0x'' \<and> length s = 42)"

text \<open>
  The candidates of the resolver in the order in which it tries them: the first non-blank
  address field of the event; the six fields of the organizer document and then of the
  user document, each stripped, when the organizer id of the event is an \<^verbatim>\<open>ObjectId\<close>,
  the collection exists and holds the document; the fall-back address.
\<close>

definition party_candidates :: "oid option \<Rightarrow> (oid \<rightharpoonup> party) option \<Rightarrow> string list" where
  "party_candidates oid coll =
     (case oid of
        None \<Rightarrow> []
      | Some i \<Rightarrow>
          (case coll of
             None \<Rightarrow> []
           | Some c \<Rightarrow>
               (case c i of
                  None \<Rightarrow> []
                | Some p \<Rightarrow> map (\<lambda>v. strip (or_empty v)) (party_fields p))))"

definition payout_candidates :: "db \<Rightarrow> event \<Rightarrow> string list" where
  "payout_candidates d ev =
     (let oid = to_oid (py_or [ev_organizer_id ev, ev_organizer_user_id ev, ev_organizer ev])
      in pick [ev_payout_address ev, ev_organizer_payout_address ev, ev_treasury_address ev,
               ev_usdc_payout ev, ev_wallet_address ev]
         # party_candidates oid (organizers d) @ party_candidates oid (users d)
         @ [strip DEFAULT_PAYOUT_ADDRESS])"

text \<open>
  The address fields of an event in the order in which \<^verbatim>\<open>_find_payout_address\<close> hands them
  to \<^verbatim>\<open>_pick\<close>, and every candidate of the four sources in order: these fields, the
  fields of the organizer document, the fields of the user document, the fall-back address,
  each stripped.
\<close>

definition event_fields :: "event \<Rightarrow> string option list" where
  "event_fields ev =
     [ev_payout_address ev, ev_organizer_payout_address ev, ev_treasury_address ev,
      ev_usdc_payout ev, ev_wallet_address ev]"

definition candidates_in_order :: "db \<Rightarrow> event \<Rightarrow> string list" where
  "candidates_in_order d ev =
     (let oid = to_oid (py_or [ev_organizer_id ev, ev_organizer_user_id ev, ev_organizer ev])
      in map (\<lambda>v. strip (or_empty v)) (event_fields ev)
         @ party_candidates oid (organizers d) @ party_candidates oid (users d)
         @ [strip DEFAULT_PAYOUT_ADDRESS])"

text \<open>
  Events and accounts for the resolver: an event whose payout field is not hexadecimal, an
  event whose first address field is a note while a later one holds an address, and an
  event without address fields whose organizer is a user with a wallet address.
\<close>

definition ex_event_nonhex :: event where
  "ex_event_nonhex =
     ex_event\<lparr>ev_payout_address := Some ''0xzzzzzzzzzzzzzzzzzzzzzzzzzzzzzzzzzzzzzzzz''\<rparr>"

definition ex_event_note :: event where
  "ex_event_note =
     ex_event\<lparr>ev_payout_address := Some ''ask the organizer'',
              ev_wallet_address := Some ''0xcccccccccccccccccccccccccccccccccccccccc''\<rparr>"

definition ex_user_oid :: oid where
  "ex_user_oid = ''5f1e2d3c4b5a69788796a5b4''"

definition ex_user :: party where
  "ex_user = \<lparr>p_payout_address = None,
              p_wallet_address = Some ''0xaaaaaaaaaaaaaaaaaaaaaaaaaaaaaaaaaaaaaaaa'',
              p_treasury_wallet = None, p_usdc_wallet = None,
              p_billing_payout_address = None, p_settings_payout_address = None\<rparr>"

definition ex_organizer :: party where
  "ex_organizer = \<lparr>p_payout_address = None, p_wallet_address = None,
                   p_treasury_wallet = None, p_usdc_wallet = None,
                   p_billing_payout_address = None, p_settings_payout_address = None\<rparr>"

definition ex_event_user :: event where
  "ex_event_user = ex_event\<lparr>ev_organizer_id := Some ex_user_oid\<rparr>"

definition ex_db_user :: db where
  "ex_db_user = ex_db\<lparr>events := [ex_oid \<mapsto> ex_event_user],
                      organizers := Some [ex_user_oid \<mapsto> ex_organizer],
                      users := Some [ex_user_oid \<mapsto> ex_user]\<rparr>"

text \<open>The first candidate of a list that \<^verbatim>\<open>_norm_addr\<close> accepts, the empty string when
  there is none.\<close>

definition first_accepted :: "string list \<Rightarrow> string" where
  "first_accepted cs = (case List.find accepted_form cs of Some a \<Rightarrow> a | None \<Rightarrow> [])"


text \<open>
  \<^verbatim>\<open>complete\<close> in two phases. The first phase is every statement up to the amount check:
  it reads the session, the request, the event and the number of ticket rows, and writes
  nothing. It ends with an error or with the values the second phase needs. The second
  phase is the inserts. Between the two phases the handler holds no lock and no storage
  transaction is open, so another request may be served in between.
\<close>

record pending =
  pn_attendee :: string
  pn_oid :: oid
  pn_event :: event
  pn_tier_idx :: int
  pn_qty :: int
  pn_chain :: int

definition complete_check :: "db \<Rightarrow> session \<Rightarrow> request \<Rightarrow> error + pending" where
  "complete_check d sess data =
     (case uid sess of
        None \<Rightarrow> Inl not_logged_in
      | Some attendee \<Rightarrow>
         (case (int_or (r_tierIdx data) (- 1), int_or (r_quantity data) 0,
                int_or (r_chainId data) 0) of
            (Some tier_idx, Some qty, Some chain) \<Rightarrow>
              if \<not> (truthy (r_eventId data) \<and> qty > 0 \<and> chain \<noteq> 0
                    \<and> strip (or_empty (r_to data)) \<noteq> [])
              then Inl invalid_payload
              else
                (case to_oid (r_eventId data) of
                   None \<Rightarrow> Inl bad_event
                 | Some oid \<Rightarrow>
                    (case events d oid of
                       None \<Rightarrow> Inl not_found
                     | Some ev \<Rightarrow>
                        if ev_status ev \<noteq> ''published'' then Inl not_found
                        else if tier_idx < 0 \<or> tier_idx \<ge> int (length (ev_tiers ev))
                        then Inl bad_tier
                        else if qty > a_available (tier_availability d oid tier_idx
                                                     (ev_tiers ev ! nat tier_idx))
                        then Inl sold_out
                        else if amount_rejected (ev_tiers ev ! nat tier_idx) qty
                                  (r_amountUSDC data)
                        then Inl amount_mismatch
                        else Inr \<lparr>pn_attendee = attendee, pn_oid = oid, pn_event = ev,
                                  pn_tier_idx = tier_idx, pn_qty = qty, pn_chain = chain\<rparr>))
          | _ \<Rightarrow> Inl unhandled_exception))"

definition complete_write :: "db \<Rightarrow> request \<Rightarrow> pending \<Rightarrow> int \<Rightarrow> db \<times> complete_ok" where
  "complete_write d data p now_dt =
     record_purchase d (pn_attendee p) data (pn_oid p) (pn_event p) (pn_tier_idx p)
       (pn_qty p) (pn_chain p) now_dt"

text \<open>Requests served one after another, each call of \<^verbatim>\<open>complete\<close> running to its end.\<close>

fun complete_each ::
  "db \<Rightarrow> session \<Rightarrow> request list \<Rightarrow> int \<Rightarrow> db \<times> (error + complete_ok) list" where
  "complete_each d sess [] now_dt = (d, [])"
| "complete_each d sess (data # rest) now_dt =
     (case complete d sess data now_dt of
        (d1, res) \<Rightarrow>
          (case complete_each d1 sess rest now_dt of
             (d2, ress) \<Rightarrow> (d2, res # ress)))"

text \<open>The example event with a single unit on sale, and a second claim for it.\<close>

definition ex_tier_single :: tier where
  "ex_tier_single = ex_tier\<lparr>t_supply := 1\<rparr>"

definition ex_event_single :: event where
  "ex_event_single = ex_event\<lparr>ev_tiers := [ex_tier_single]\<rparr>"

definition ex_db_single :: db where
  "ex_db_single = ex_db\<lparr>events := [ex_oid \<mapsto> ex_event_single]\<rparr>"

definition ex_request_other :: request where
  "ex_request_other = ex_request\<lparr>r_basePaymentId := Some ''pay_2''\<rparr>"

definition ex_pending :: pending where
  "ex_pending = \<lparr>pn_attendee = ''u1'', pn_oid = ex_oid, pn_event = ex_event_single,
                 pn_tier_idx = 0, pn_qty = 1, pn_chain = 8453\<rparr>"

text \<open>
  The storage can refuse an insert. \<^verbatim>\<open>insert_one\<close> encodes its document before it sends
  it and raises \<^verbatim>\<open>OverflowError\<close> for an integer that does not fit 8 bytes; the integers
  that \<^verbatim>\<open>complete\<close> stores are the tier index, the quantity and the chain identifier, all
  three in the payment, which is inserted first. An insert also raises when the server
  cannot be reached. The handler catches no exception and undoes nothing: the request
  ends with status 500 and the records inserted before stay.

  \<open>complete_on n\<close> is \<^verbatim>\<open>complete\<close> over a storage that performs the first \<open>n\<close> inserts of
  the call and raises at the next one; \<open>write_prefix n\<close> is the database after these
  inserts. \<open>complete\<close> itself is the handler over a storage that refuses nothing.
\<close>

definition bson_int :: "int \<Rightarrow> bool" where
  "bson_int n = (- (2 ^ 63) \<le> n \<and> n < 2 ^ 63)"

definition encodable :: "pending \<Rightarrow> bool" where
  "encodable p = (bson_int (pn_tier_idx p) \<and> bson_int (pn_qty p) \<and> bson_int (pn_chain p))"

definition write_prefix :: "nat \<Rightarrow> db \<Rightarrow> request \<Rightarrow> pending \<Rightarrow> int \<Rightarrow> db" where
  "write_prefix n d data p now_dt =
     (if n = 0 then d
      else
        case insert_payment
               (pay_doc (pn_attendee p) data (pn_oid p) (pn_event p) (pn_tier_idx p)
                  (pn_qty p) (pn_chain p) now_dt) d of
          (d1, payment_id) \<Rightarrow>
            if n = 1 then d1
            else
              issue_tickets (min (n - 2) (nat (pn_qty p)))
                (ticket_doc (pn_attendee p) (pn_oid p) (pn_event p) (pn_tier_idx p) now_dt
                   payment_id)
                (insert_transaction
                   (tx_doc (pn_attendee p) data (pn_oid p) (pn_event p) (pn_tier_idx p)
                      (pn_qty p) (pn_chain p) now_dt payment_id) d1))"

definition complete_on ::
  "nat \<Rightarrow> db \<Rightarrow> session \<Rightarrow> request \<Rightarrow> int \<Rightarrow> db \<times> (error + complete_ok)" where
  "complete_on n d sess data now_dt =
     (case complete_check d sess data of
        Inl e \<Rightarrow> (d, Inl e)
      | Inr p \<Rightarrow>
          if \<not> encodable p then (d, Inl unhandled_exception)
          else if n < 2 + nat (pn_qty p)
          then (write_prefix n d data p now_dt, Inl unhandled_exception)
          else (fst (complete_write d data p now_dt),
                Inr (snd (complete_write d data p now_dt))))"





section \<open>Properties\<close>

subsection \<open>Evaluating floats\<close>

lemma floor_numeral_div:
  "\<lfloor>numeral m / numeral n :: rat\<rfloor> = numeral m div numeral n"
  using floor_divide_of_int_eq [of "numeral m" "numeral n", where ?'a = rat] by simp

lemma ceiling_numeral_div:
  "\<lceil>numeral m / numeral n :: rat\<rceil> = - (- numeral m div numeral n)"
  unfolding ceiling_def
  using floor_divide_of_int_eq [of "- numeral m" "numeral n", where ?'a = rat] by simp

lemmas fl_eval = fl_def ilog2_def pow2_def round_half_even_def decimal_round_def Let_def
  bit_length.simps floor_numeral_div ceiling_numeral_div float_of_int_def USDC_DECIMALS_def

lemma fl_zero: "fl 0 = Fin 0"
  by (simp add: fl_def)

lemma fl_micro: "fl (1 / 1000000) = Fin (4722366482869645 / 4722366482869645213696)"
  by (simp add: fl_eval)

lemma ex_amounts:
  "float_of_int 0 = Fin 0"
  "py_round (f_mul (Fin 10) (float_of_int 1)) USDC_DECIMALS = Fin 10"
  "py_round (f_mul (Fin 10) (float_of_int 2)) USDC_DECIMALS = Fin 20"
  "py_round (f_mul (Fin 10) (float_of_int 4)) USDC_DECIMALS = Fin 40"
  "paid_amount_of (Amount 10) = Fin 10"
  by (simp_all add: fl_eval paid_amount_of_def)

subsection \<open>The write phase\<close>

lemma insert_ticket_simps:
  "tickets (insert_ticket doc d) = tickets d @ [doc\<lparr>tk_id := next_oid d\<rparr>]"
  "next_oid (insert_ticket doc d) = Suc (next_oid d)"
  "payments (insert_ticket doc d) = payments d"
  "transactions (insert_ticket doc d) = transactions d"
  "events (insert_ticket doc d) = events d"
  "organizers (insert_ticket doc d) = organizers d"
  "users (insert_ticket doc d) = users d"
  by (simp_all add: insert_ticket_def)

lemma issue_tickets_tickets:
  "tickets (issue_tickets n doc d) =
     tickets d @ map (\<lambda>i. doc\<lparr>tk_id := next_oid d + i\<rparr>) [0..<n]"
proof (induction n arbitrary: d)
  case 0
  show ?case by simp
next
  case (Suc n)
  have "[0..<Suc n] = 0 # map Suc [0..<n]"
    by (simp add: upt_conv_Cons map_Suc_upt del: upt_Suc)
  then have "map (\<lambda>i. doc\<lparr>tk_id := next_oid d + i\<rparr>) [0..<Suc n] =
        doc\<lparr>tk_id := next_oid d\<rparr> # map (\<lambda>i. doc\<lparr>tk_id := Suc (next_oid d) + i\<rparr>) [0..<n]"
    by (simp add: o_def del: upt_Suc)
  then show ?case
    using Suc.IH [of "insert_ticket doc d"] by (simp add: insert_ticket_simps del: upt_Suc)
qed

lemma issue_tickets_other:
  "next_oid (issue_tickets n doc d) = next_oid d + n"
  "payments (issue_tickets n doc d) = payments d"
  "transactions (issue_tickets n doc d) = transactions d"
  "events (issue_tickets n doc d) = events d"
  "organizers (issue_tickets n doc d) = organizers d"
  "users (issue_tickets n doc d) = users d"
  by (induction n arbitrary: d; simp add: insert_ticket_simps)+

lemma record_purchase_db:
  assumes "record_purchase d a data oid ev ti q c now = (d', ok)"
  shows "payments d' = payments d @ [(pay_doc a data oid ev ti q c now)\<lparr>pay_id := next_oid d\<rparr>]"
    and "transactions d' =
           transactions d
           @ [(tx_doc a data oid ev ti q c now (next_oid d))\<lparr>tx_id := Suc (next_oid d)\<rparr>]"
    and "tickets d' =
           tickets d
           @ map (\<lambda>i. (ticket_doc a oid ev ti now (next_oid d))\<lparr>tk_id := next_oid d + 2 + i\<rparr>)
                 [0..<nat q]"
    and "next_oid d' = next_oid d + 2 + nat q"
    and "events d' = events d" and "organizers d' = organizers d" and "users d' = users d"
    and "ok = \<lparr>ok_payment_id = next_oid d,
               ok_base_payment_id = or_none (strip (or_empty (r_basePaymentId data)))\<rparr>"
  using assms
  by (auto simp add: record_purchase_def insert_payment_def insert_transaction_def Let_def
        issue_tickets_tickets issue_tickets_other)

subsection \<open>The shape of \<^verbatim>\<open>complete\<close>\<close>

lemma complete_error_unchanged:
  "complete d sess data now = (d', Inl e) \<Longrightarrow> d' = d"
  by (auto simp add: complete_def Let_def split: option.splits if_splits prod.splits)

lemma complete_resolved:
  assumes "request_resolves d sess data a oid ev ti q c"
  shows "complete d sess data now =
           (if q > a_available (tier_availability d oid ti (ev_tiers ev ! nat ti))
            then (d, Inl sold_out)
            else if amount_rejected (ev_tiers ev ! nat ti) q (r_amountUSDC data)
            then (d, Inl amount_mismatch)
            else (fst (record_purchase d a data oid ev ti q c now),
                  Inr (snd (record_purchase d a data oid ev ti q c now))))"
  using assms
  by (simp add: request_resolves_def complete_def Let_def split: prod.splits)

lemma complete_success_resolves:
  assumes "complete d sess data now = (d', Inr ok)"
  shows "\<exists>a oid ev ti q c.
           request_resolves d sess data a oid ev ti q c
           \<and> q \<le> a_available (tier_availability d oid ti (ev_tiers ev ! nat ti))
           \<and> \<not> amount_rejected (ev_tiers ev ! nat ti) q (r_amountUSDC data)
           \<and> record_purchase d a data oid ev ti q c now = (d', ok)"
  using assms
  by (auto simp add: request_resolves_def complete_def Let_def
        split: option.splits if_splits prod.splits)

subsection \<open>Capacity\<close>

lemma count_tickets_record_purchase:
  assumes "record_purchase d a data oid ev ti q c now = (d', ok)"
  shows "count_tickets d' oid' i =
           count_tickets d oid' i + (if oid' = oid \<and> i = ti then int (nat q) else 0)"
proof -
  have const: "filter (\<lambda>x. P) xs = (if P then xs else [])" for P and xs :: "nat list"
    by (induction xs) auto
  show ?thesis
    using record_purchase_db(3) [OF assms]
    by (auto simp add: count_tickets_def ticket_doc_def filter_map o_def const)
qed

lemma available_bound:
  assumes "0 < q" and "q \<le> a_available (tier_availability d oid ti tr)"
  shows "count_tickets d oid ti + q \<le> t_supply tr"
  using assms by (simp add: tier_availability_def Let_def split: if_splits)

lemma sold_out_when_exceeding:
  assumes "0 < q" and "q > t_supply tr - count_tickets d oid ti"
  shows "q > a_available (tier_availability d oid ti tr)"
  using assms by (simp add: tier_availability_def Let_def)

lemma ex_oid_ok: "to_oid (Some ex_oid) = Some ex_oid"
  by (simp add: to_oid_def ex_oid_def ascii_space_def is_hex_def hex_lower_def)

lemma ex_resolves:
  "request_resolves ex_db ex_session (ex_request\<lparr>r_quantity := Num 4\<rparr>)
     ''u1'' ex_oid ex_event 0 4 8453"
  by (simp add: request_resolves_def ex_oid_ok ex_db_def ex_session_def ex_request_def
        ex_event_def int_or_def truthy_def strip_def or_empty_def DEFAULT_PAYOUT_ADDRESS_def
        py_space_def)
     (simp add: ex_oid_def)

lemma ex_db_capacity: "capacity_inv ex_db"
  by (simp add: capacity_inv_def ex_db_def count_tickets_def ex_event_def ex_tier_def)

text \<open>
  Claim C2. For every event and tier the invariant \<open>0 \<le> sold \<le> supply\<close>, with \<open>sold\<close>
  the number of ticket rows of the tier, is preserved by every call of \<^verbatim>\<open>complete\<close>
  that runs on its own; and a request that reaches the availability check with a quantity
  above supply minus the current ticket count ends with \<open>sold_out\<close> and leaves the
  database as it was, so no ticket is issued.
\<close>

theorem complete_keeps_capacity:
  assumes "capacity_inv d"
  shows "capacity_inv (fst (complete d sess data now))
         \<and> (\<forall>a oid ev ti q c.
              request_resolves d sess data a oid ev ti q c
              \<and> q > t_supply (ev_tiers ev ! nat ti) - count_tickets d oid ti
              \<longrightarrow> complete d sess data now = (d, Inl sold_out))"
proof
  obtain d' res where run: "complete d sess data now = (d', res)"
    by (cases "complete d sess data now")
  show "capacity_inv (fst (complete d sess data now))"
  proof (cases res)
    case (Inl e)
    with run have "d' = d" by (simp add: complete_error_unchanged)
    with run assms show ?thesis by simp
  next
    case (Inr ok)
    with run obtain a oid ev ti q c where
      res: "request_resolves d sess data a oid ev ti q c"
      and fits: "q \<le> a_available (tier_availability d oid ti (ev_tiers ev ! nat ti))"
      and rp: "record_purchase d a data oid ev ti q c now = (d', ok)"
      using complete_success_resolves by blast
    from res have q: "0 < q" and ti: "0 \<le> ti" "ti < int (length (ev_tiers ev))"
      and ev: "events d oid = Some ev"
      by (simp_all add: request_resolves_def)
    have grow: "count_tickets d oid ti + q \<le> t_supply (ev_tiers ev ! nat ti)"
      using available_bound [OF q fits] .
    have "capacity_inv d'"
      unfolding capacity_inv_def
    proof (intro allI impI)
      fix oid' ev' i
      assume e': "events d' oid' = Some ev'" and i: "i < length (ev_tiers ev')"
      from e' have e: "events d oid' = Some ev'"
        by (simp add: record_purchase_db(5) [OF rp])
      from assms e i have old: "count_tickets d oid' (int i) \<le> t_supply (ev_tiers ev' ! i)"
        and nonneg: "0 \<le> count_tickets d oid' (int i)"
        by (simp_all add: capacity_inv_def)
      show "0 \<le> count_tickets d' oid' (int i)
            \<and> count_tickets d' oid' (int i) \<le> t_supply (ev_tiers ev' ! i)"
      proof (cases "oid' = oid \<and> int i = ti")
        case True
        with e ev have "ev' = ev" by simp
        moreover from True ti have "nat ti = i" by auto
        ultimately show ?thesis
          using grow True q nonneg by (simp add: count_tickets_record_purchase [OF rp])
      next
        case False
        then show ?thesis
          using old nonneg by (auto simp add: count_tickets_record_purchase [OF rp])
      qed
    qed
    with run show ?thesis by simp
  qed
next
  show "\<forall>a oid ev ti q c.
          request_resolves d sess data a oid ev ti q c
          \<and> q > t_supply (ev_tiers ev ! nat ti) - count_tickets d oid ti
          \<longrightarrow> complete d sess data now = (d, Inl sold_out)"
  proof (intro allI impI, elim conjE)
    fix a oid ev ti q c
    assume res: "request_resolves d sess data a oid ev ti q c"
      and over: "q > t_supply (ev_tiers ev ! nat ti) - count_tickets d oid ti"
    from res have "0 < q" by (simp add: request_resolves_def)
    from sold_out_when_exceeding [OF this over]
    show "complete d sess data now = (d, Inl sold_out)"
      by (simp add: complete_resolved [OF res])
  qed
qed

theorem complete_keeps_capacity_witness:
  "capacity_inv ex_db
   \<and> request_resolves ex_db ex_session (ex_request\<lparr>r_quantity := Num 4\<rparr>)
        ''u1'' ex_oid ex_event 0 4 8453
   \<and> 4 > t_supply (ev_tiers ex_event ! nat 0) - count_tickets ex_db ex_oid 0
   \<and> complete ex_db ex_session (ex_request\<lparr>r_quantity := Num 4\<rparr>) 0 = (ex_db, Inl sold_out)
   \<and> capacity_inv (fst (complete ex_db ex_session (ex_request\<lparr>r_quantity := Num 4\<rparr>) 0))"
proof -
  have over: "4 > t_supply (ev_tiers ex_event ! nat 0) - count_tickets ex_db ex_oid 0"
    by (simp add: ex_event_def ex_tier_def count_tickets_def ex_db_def)
  from complete_keeps_capacity
         [OF ex_db_capacity, of ex_session "ex_request\<lparr>r_quantity := Num 4\<rparr>" 0]
    ex_resolves over ex_db_capacity
  show ?thesis by blast
qed

subsection \<open>Accepted requests\<close>

lemma complete_accepted:
  assumes "request_resolves d sess data a oid ev ti q c"
    and "q \<le> a_available (tier_availability d oid ti (ev_tiers ev ! nat ti))"
    and "\<not> amount_rejected (ev_tiers ev ! nat ti) q (r_amountUSDC data)"
  shows "complete d sess data now =
           (fst (record_purchase d a data oid ev ti q c now),
            Inr \<lparr>ok_payment_id = next_oid d,
                 ok_base_payment_id = or_none (strip (or_empty (r_basePaymentId data)))\<rparr>)"
  using assms record_purchase_db(8) [OF surjective_pairing, of d a data oid ev ti q c now]
  by (simp add: complete_resolved)

lemmas purchase_fst = record_purchase_db [OF surjective_pairing]

subsection \<open>Sales window\<close>





subsection \<open>Records written by a settlement\<close>

lemma ex_strings:
  "strip (or_empty (r_from ex_request)) = ''0x1111111111111111111111111111111111111111''"
  "strip (or_empty (r_to ex_request)) = DEFAULT_PAYOUT_ADDRESS"
  "strip (or_empty (r_basePaymentId ex_request)) = ''pay_1''"
  "strip (or_empty (r_baseStatus ex_request)) = ''succeeded''"
  "strip (or_empty (r_txHash ex_request)) = []"
  by (simp_all add: ex_request_def strip_def or_empty_def py_space_def DEFAULT_PAYOUT_ADDRESS_def)

lemma ex_expected:
  "py_round (f_mul (t_price ex_tier) (float_of_int 1)) USDC_DECIMALS = Fin 10"
  by (simp add: ex_tier_def ex_amounts)

lemma ex_amount_ok: "\<not> amount_rejected ex_tier 1 (Amount 10)"
  by (simp add: amount_rejected_def ex_tier_def ex_amounts fl_zero fl_micro)

lemma ex_resolves_one:
  "request_resolves ex_db ex_session ex_request ''u1'' ex_oid ex_event 0 1 8453"
  by (simp add: request_resolves_def ex_oid_ok ex_db_def ex_session_def ex_request_def
        ex_event_def int_or_def truthy_def strip_def or_empty_def DEFAULT_PAYOUT_ADDRESS_def
        py_space_def)
     (simp add: ex_oid_def)

lemma ex_resolves_again:
  "request_resolves ex_db_after ex_session ex_request ''u1'' ex_oid ex_event 0 1 8453"
  using ex_resolves_one by (simp add: request_resolves_def ex_db_after_def)

lemma ex_docs:
  "(pay_doc ''u1'' ex_request ex_oid ex_event 0 1 8453 now)\<lparr>pay_id := n\<rparr>
     = ex_payment\<lparr>pay_id := n, pay_created_at := now\<rparr>"
  "(tx_doc ''u1'' ex_request ex_oid ex_event 0 1 8453 now pid)\<lparr>tx_id := m\<rparr>
     = ex_transaction\<lparr>tx_id := m, tx_created_at := now, tx_payment_id := pid\<rparr>"
  "(ticket_doc ''u1'' ex_oid ex_event 0 now pid)\<lparr>tk_id := k\<rparr>
     = ex_ticket\<lparr>tk_id := k, tk_purchased_at := now, tk_payment_id := pid\<rparr>"
  using ex_expected
  by (simp_all add: pay_doc_def tx_doc_def ticket_doc_def ex_strings Let_def or_none_def
        ex_payment_def ex_transaction_def ex_ticket_def ex_event_def truthy_def)
     (simp_all add: ex_request_def ex_tier_def truthy_def)

lemma ex_first_call:
  "complete ex_db ex_session ex_request 0
     = (ex_db_after, Inr \<lparr>ok_payment_id = 0, ok_base_payment_id = Some ''pay_1''\<rparr>)"
proof -
  have fits: "1 \<le> a_available (tier_availability ex_db ex_oid 0 (ev_tiers ex_event ! nat 0))"
    by (simp add: tier_availability_def count_tickets_def ex_db_def ex_event_def ex_tier_def
          Let_def)
  have amt: "\<not> amount_rejected (ev_tiers ex_event ! nat 0) 1 (r_amountUSDC ex_request)"
    using ex_amount_ok by (simp add: ex_event_def ex_request_def)
  have "fst (record_purchase ex_db ''u1'' ex_request ex_oid ex_event 0 1 8453 0) = ex_db_after"
    by (rule db.equality)
       (simp_all add: purchase_fst ex_docs, simp_all add: ex_db_after_def ex_db_def
          ex_payment_def ex_transaction_def ex_ticket_def)
  with complete_accepted [OF ex_resolves_one fits amt, of 0] show ?thesis
    by (simp add: ex_strings or_none_def ex_db_def)
qed





lemma ex_second_call:
  "complete ex_db_after ex_session ex_request now
     = (fst (record_purchase ex_db_after ''u1'' ex_request ex_oid ex_event 0 1 8453 now),
        Inr \<lparr>ok_payment_id = 3, ok_base_payment_id = Some ''pay_1''\<rparr>)"
proof -
  have fits: "1 \<le> a_available (tier_availability ex_db_after ex_oid 0 (ev_tiers ex_event ! nat 0))"
    by (simp add: tier_availability_def count_tickets_def ex_db_after_def ex_db_def
          ex_event_def ex_tier_def ex_ticket_def Let_def)
  have amt: "\<not> amount_rejected (ev_tiers ex_event ! nat 0) 1 (r_amountUSDC ex_request)"
    using ex_amount_ok by (simp add: ex_event_def ex_request_def)
  from complete_accepted [OF ex_resolves_again fits amt, of now] show ?thesis
    by (simp add: ex_strings or_none_def ex_db_after_def)
qed

lemma ex_refs_issued: "refs_issued ex_db_after"
  by (simp add: refs_issued_def ex_db_after_def ex_ticket_def)

subsection \<open>Repeated completion\<close>

lemma tier_availability_payments:
  "tier_availability (d\<lparr>payments := ps\<rparr>) oid ti tr = tier_availability d oid ti tr"
  by (simp add: tier_availability_def count_tickets_def)

lemma complete_payments_irrelevant:
  "snd (complete (d\<lparr>payments := ps\<rparr>) sess data now) = snd (complete d sess data now)"
  by (simp add: complete_def Let_def case_prod_beta tier_availability_payments purchase_fst(8)
        split: option.splits)

lemma request_resolves_same:
  assumes "request_resolves d sess data a oid ev ti q c"
    and "request_resolves d1 sess data a' oid' ev' ti' q' c'"
    and "events d1 = events d"
  shows "a' = a \<and> oid' = oid \<and> ev' = ev \<and> ti' = ti \<and> q' = q \<and> c' = c"
  using assms by (auto simp add: request_resolves_def)

text \<open>
  Claim C1, as amended. \<^verbatim>\<open>complete\<close> does not look up the external payment identifier:
  its answer never depends on the payments already stored. When a completion has
  succeeded and the same claim is sent again, the second call either fails one of the
  checks and writes nothing, or it writes a second payment with the same external
  identifier, a second transaction and a second batch of tickets, and answers with a new
  payment identifier.
\<close>

theorem complete_repeats_settlement:
  assumes "complete d sess data now = (d1, Inr ok1)"
    and "complete d1 sess data now' = (d2, res2)"
  shows "(case res2 of
            Inl e \<Rightarrow> d2 = d1
          | Inr ok2 \<Rightarrow>
              ok_payment_id ok2 \<noteq> ok_payment_id ok1
              \<and> ok_base_payment_id ok2 = ok_base_payment_id ok1
              \<and> (\<exists>p1 p2.
                    payments d2 = payments d @ [p1, p2]
                    \<and> pay_id p1 = ok_payment_id ok1 \<and> pay_id p2 = ok_payment_id ok2
                    \<and> pay_base_payment_id p2 = pay_base_payment_id p1
                    \<and> 0 < pay_quantity p1 \<and> pay_quantity p2 = pay_quantity p1
                    \<and> int (length (tickets d2))
                        = int (length (tickets d)) + pay_quantity p1 + pay_quantity p2)
              \<and> length (transactions d2) = length (transactions d) + 2)
         \<and> (\<forall>ps. snd (complete (d\<lparr>payments := ps\<rparr>) sess data now)
                   = snd (complete d sess data now))"
proof
  from assms(1) obtain a oid ev ti q c where
    res: "request_resolves d sess data a oid ev ti q c"
    and rp1: "record_purchase d a data oid ev ti q c now = (d1, ok1)"
    using complete_success_resolves by blast
  from res have q: "0 < q" by (simp add: request_resolves_def)
  show "case res2 of
          Inl e \<Rightarrow> d2 = d1
        | Inr ok2 \<Rightarrow>
            ok_payment_id ok2 \<noteq> ok_payment_id ok1
            \<and> ok_base_payment_id ok2 = ok_base_payment_id ok1
            \<and> (\<exists>p1 p2.
                  payments d2 = payments d @ [p1, p2]
                  \<and> pay_id p1 = ok_payment_id ok1 \<and> pay_id p2 = ok_payment_id ok2
                  \<and> pay_base_payment_id p2 = pay_base_payment_id p1
                  \<and> 0 < pay_quantity p1 \<and> pay_quantity p2 = pay_quantity p1
                  \<and> int (length (tickets d2))
                      = int (length (tickets d)) + pay_quantity p1 + pay_quantity p2)
            \<and> length (transactions d2) = length (transactions d) + 2"
  proof (cases res2)
    case (Inl e)
    with assms(2) show ?thesis by (simp add: complete_error_unchanged)
  next
    case (Inr ok2)
    with assms(2) obtain a' oid' ev' ti' q' c' where
      res': "request_resolves d1 sess data a' oid' ev' ti' q' c'"
      and rp2': "record_purchase d1 a' data oid' ev' ti' q' c' now' = (d2, ok2)"
      using complete_success_resolves by blast
    from request_resolves_same [OF res res' record_purchase_db(5) [OF rp1]] rp2'
    have rp2: "record_purchase d1 a data oid ev ti q c now' = (d2, ok2)"
      by simp
    let ?p1 = "(pay_doc a data oid ev ti q c now)\<lparr>pay_id := next_oid d\<rparr>"
    let ?p2 = "(pay_doc a data oid ev ti q c now')\<lparr>pay_id := next_oid d1\<rparr>"
    have ids: "ok_payment_id ok1 = next_oid d" "ok_payment_id ok2 = next_oid d1"
      and base: "ok_base_payment_id ok2 = ok_base_payment_id ok1"
      by (simp_all add: record_purchase_db(8) [OF rp1] record_purchase_db(8) [OF rp2])
    have later: "next_oid d1 = next_oid d + 2 + nat q"
      by (rule record_purchase_db(4) [OF rp1])
    have pays: "payments d2 = payments d @ [?p1, ?p2]"
      by (simp add: record_purchase_db(1) [OF rp1] record_purchase_db(1) [OF rp2])
    have tks: "int (length (tickets d2))
                 = int (length (tickets d)) + pay_quantity ?p1 + pay_quantity ?p2"
      using q
      by (simp add: record_purchase_db(3) [OF rp1] record_purchase_db(3) [OF rp2]
            pay_doc_def Let_def)
    have txs: "length (transactions d2) = length (transactions d) + 2"
      by (simp add: record_purchase_db(2) [OF rp1] record_purchase_db(2) [OF rp2])
    have "\<exists>p1 p2.
            payments d2 = payments d @ [p1, p2]
            \<and> pay_id p1 = ok_payment_id ok1 \<and> pay_id p2 = ok_payment_id ok2
            \<and> pay_base_payment_id p2 = pay_base_payment_id p1
            \<and> 0 < pay_quantity p1 \<and> pay_quantity p2 = pay_quantity p1
            \<and> int (length (tickets d2))
                = int (length (tickets d)) + pay_quantity p1 + pay_quantity p2"
      apply (rule exI [of _ ?p1], rule exI [of _ ?p2])
      using pays tks q ids by (simp add: pay_doc_def Let_def)
    with ids later base txs Inr show ?thesis by simp
  qed
next
  show "\<forall>ps. snd (complete (d\<lparr>payments := ps\<rparr>) sess data now) = snd (complete d sess data now)"
    by (simp add: complete_payments_irrelevant)
qed

text \<open>
  The example request is completed twice. The payment of the first call carries the
  external identifier of the request; the second call answers with payment 3, not 0, and
  leaves two payments, two transactions and two tickets.
\<close>

theorem repeated_completion_counterexample:
  "complete ex_db ex_session ex_request 0
     = (ex_db_after, Inr \<lparr>ok_payment_id = 0, ok_base_payment_id = Some ''pay_1''\<rparr>)
   \<and> map pay_base_payment_id (payments ex_db_after) = [r_basePaymentId ex_request]
   \<and> snd (complete ex_db_after ex_session ex_request 1)
       = Inr \<lparr>ok_payment_id = 3, ok_base_payment_id = Some ''pay_1''\<rparr>
   \<and> map pay_id (payments (fst (complete ex_db_after ex_session ex_request 1))) = [0, 3]
   \<and> map tx_payment_id (transactions (fst (complete ex_db_after ex_session ex_request 1)))
       = [0, 3]
   \<and> map tk_payment_id (tickets (fst (complete ex_db_after ex_session ex_request 1)))
       = [0, 3]"
  by (simp add: ex_first_call ex_second_call purchase_fst ticket_doc_def)
     (simp add: ex_db_after_def ex_payment_def ex_transaction_def ex_ticket_def ex_request_def
        tx_doc_def Let_def)

theorem complete_repeats_settlement_witness:
  "complete ex_db ex_session ex_request 0
     = (ex_db_after, Inr \<lparr>ok_payment_id = 0, ok_base_payment_id = Some ''pay_1''\<rparr>)
   \<and> snd (complete ex_db_after ex_session ex_request 1)
       = Inr \<lparr>ok_payment_id = 3, ok_base_payment_id = Some ''pay_1''\<rparr>
   \<and> length (payments (fst (complete ex_db_after ex_session ex_request 1)))
       = length (payments ex_db) + 2
   \<and> length (transactions (fst (complete ex_db_after ex_session ex_request 1)))
       = length (transactions ex_db) + 2"
proof -
  have second: "complete ex_db_after ex_session ex_request 1
                  = (fst (complete ex_db_after ex_session ex_request 1),
                     Inr \<lparr>ok_payment_id = 3, ok_base_payment_id = Some ''pay_1''\<rparr>)"
    by (simp add: ex_second_call)
  from complete_repeats_settlement [OF ex_first_call second]
  obtain p1 p2 where
    "payments (fst (complete ex_db_after ex_session ex_request 1)) = payments ex_db @ [p1, p2]"
    and "length (transactions (fst (complete ex_db_after ex_session ex_request 1)))
           = length (transactions ex_db) + 2"
    by auto
  moreover have "snd (complete ex_db_after ex_session ex_request 1)
                   = Inr \<lparr>ok_payment_id = 3, ok_base_payment_id = Some ''pay_1''\<rparr>"
    by (simp add: ex_second_call)
  ultimately show ?thesis using ex_first_call by simp
qed

subsection \<open>Network and recipient of a claim\<close>

lemma ex_payout: "find_payout_address ex_db ex_event = DEFAULT_PAYOUT_ADDRESS"
  by (simp add: find_payout_address_def ex_event_def norm_addr_def or_empty_def strip_def
        to_oid_def lookup_party_def Let_def DEFAULT_PAYOUT_ADDRESS_def py_space_def)

lemma ex_quote:
  "snd (start ex_db ex_session (Some ex_oid) (Num 0) (Num 1) 0)
     = Inr \<lparr>q_event_id = ex_oid, q_tier_idx = 0, q_quantity = 1, q_unit_price = Fin 10,
            q_amount = Fin 10, q_max_allowed = 3, q_payout = DEFAULT_PAYOUT_ADDRESS,
            q_chain_id = 8453, q_usdc = ''0x833589fCD6eDb6E08f4c7C32D4f71b54bdA02913''\<rparr>"
proof -
  have ev: "events ex_db ex_oid = Some ex_event" by (simp add: ex_db_def)
  have av: "a_available (tier_availability ex_db ex_oid 0 ex_tier) = 3"
    by (simp add: tier_availability_def count_tickets_def ex_db_def ex_tier_def Let_def)
  have open_now: "tier_sales_open ex_tier 0" by (simp add: tier_sales_open_def ex_tier_def)
  have tiers: "ev_tiers ex_event = [ex_tier]" "ev_status ex_event = ''published''"
    by (simp_all add: ex_event_def)
  have lim: "t_per_order_limit ex_tier = 0" "t_price ex_tier = Fin 10"
    by (simp_all add: ex_tier_def)
  have dflt: "DEFAULT_PAYOUT_ADDRESS \<noteq> []" by (simp add: DEFAULT_PAYOUT_ADDRESS_def)
  show ?thesis
    using ex_expected
    by (simp add: start_def ex_session_def int_or_def or_empty_def ex_oid_ok ev tiers
          open_now av lim Let_def ex_payout dflt NETS_def ACTIVE_NETWORK_def
          clamp_quantity_def)
qed

text \<open>
  Claim C8, as amended. \<^verbatim>\<open>complete\<close> does not compare the paid-to address of a claim
  with the payout address of the event: two claims that differ only in a non-blank
  paid-to address get the same answer, and a successful call stores the claimed address,
  stripped, in the payment and in the transaction.
\<close>

theorem complete_accepts_any_recipient:
  assumes "strip (or_empty t) \<noteq> []" and "strip (or_empty t') \<noteq> []"
  shows "snd (complete d sess (data\<lparr>r_to := t\<rparr>) now)
           = snd (complete d sess (data\<lparr>r_to := t'\<rparr>) now)
         \<and> (\<forall>d' ok. complete d sess (data\<lparr>r_to := t\<rparr>) now = (d', Inr ok)
               \<longrightarrow> pay_pay_to (last (payments d')) = strip (or_empty t)
                   \<and> tx_to (last (transactions d')) = strip (or_empty t))"
proof
  show "snd (complete d sess (data\<lparr>r_to := t\<rparr>) now)
          = snd (complete d sess (data\<lparr>r_to := t'\<rparr>) now)"
    using assms
    by (simp add: complete_def Let_def case_prod_beta purchase_fst(8)
          split: option.splits)
next
  show "\<forall>d' ok. complete d sess (data\<lparr>r_to := t\<rparr>) now = (d', Inr ok)
          \<longrightarrow> pay_pay_to (last (payments d')) = strip (or_empty t)
              \<and> tx_to (last (transactions d')) = strip (or_empty t)"
  proof (intro allI impI)
    fix d' ok
    assume "complete d sess (data\<lparr>r_to := t\<rparr>) now = (d', Inr ok)"
    then obtain a oid ev ti q c where
      rp: "record_purchase d a (data\<lparr>r_to := t\<rparr>) oid ev ti q c now = (d', ok)"
      using complete_success_resolves by blast
    show "pay_pay_to (last (payments d')) = strip (or_empty t)
          \<and> tx_to (last (transactions d')) = strip (or_empty t)"
      by (simp add: record_purchase_db(1,2) [OF rp] pay_doc_def tx_doc_def Let_def)
  qed
qed


lemma ex_fits: "1 \<le> a_available (tier_availability ex_db ex_oid 0 (ev_tiers ex_event ! nat 0))"
  by (simp add: tier_availability_def count_tickets_def ex_db_def ex_event_def ex_tier_def
        Let_def)

lemma ex_other_recipient:
  "complete ex_db ex_session
      (ex_request\<lparr>r_to := Some ''0x2222222222222222222222222222222222222222''\<rparr>) 0
     = (fst (record_purchase ex_db ''u1''
               (ex_request\<lparr>r_to := Some ''0x2222222222222222222222222222222222222222''\<rparr>)
               ex_oid ex_event 0 1 8453 0),
        Inr \<lparr>ok_payment_id = 0, ok_base_payment_id = Some ''pay_1''\<rparr>)"
proof -
  let ?r = "ex_request\<lparr>r_to := Some ''0x2222222222222222222222222222222222222222''\<rparr>"
  have res: "request_resolves ex_db ex_session ?r ''u1'' ex_oid ex_event 0 1 8453"
    using ex_resolves_one
    by (simp add: request_resolves_def strip_def or_empty_def py_space_def)
  have amt: "\<not> amount_rejected (ev_tiers ex_event ! nat 0) 1 (r_amountUSDC ?r)"
    using ex_amount_ok by (simp add: ex_event_def ex_request_def)
  from complete_accepted [OF res ex_fits amt, of 0] show ?thesis
    by (simp add: ex_strings or_none_def ex_db_def)
qed

lemma ex_other_recipient_strip:
  "strip (or_empty (Some ''0x2222222222222222222222222222222222222222''))
     = ''0x2222222222222222222222222222222222222222''"
  by (simp add: strip_def or_empty_def py_space_def)

text \<open>
  The payout address of the example event, and of the quote that \<^verbatim>\<open>start\<close> hands out,
  is the fall-back address. The example claim paid to another address is accepted: a
  payment to that address and a ticket are written.
\<close>

theorem recipient_mismatch_counterexample:
  "find_payout_address ex_db ex_event = ''0x98f869c3d188740ef666bbd97436f89c929826f7''
   \<and> map_sum id q_payout (snd (start ex_db ex_session (Some ex_oid) (Num 0) (Num 1) 0))
       = Inr ''0x98f869c3d188740ef666bbd97436f89c929826f7''
   \<and> snd (complete ex_db ex_session
             (ex_request\<lparr>r_to := Some ''0x2222222222222222222222222222222222222222''\<rparr>) 0)
       = Inr \<lparr>ok_payment_id = 0, ok_base_payment_id = Some ''pay_1''\<rparr>
   \<and> map pay_pay_to
         (payments (fst (complete ex_db ex_session
            (ex_request\<lparr>r_to := Some ''0x2222222222222222222222222222222222222222''\<rparr>) 0)))
       = [''0x2222222222222222222222222222222222222222'']
   \<and> map tk_payment_id
         (tickets (fst (complete ex_db ex_session
            (ex_request\<lparr>r_to := Some ''0x2222222222222222222222222222222222222222''\<rparr>) 0)))
       = [0]"
proof -
  have to: "r_to (ex_request\<lparr>r_to := Some ''0x2222222222222222222222222222222222222222''\<rparr>)
              = Some ''0x2222222222222222222222222222222222222222''"
    by simp
  show ?thesis
    by (simp add: ex_quote ex_payout ex_other_recipient purchase_fst ticket_doc_def pay_doc_def
          Let_def to ex_other_recipient_strip del: request.simps)
       (simp add: DEFAULT_PAYOUT_ADDRESS_def ex_db_def)
qed

theorem complete_accepts_any_recipient_witness:
  "strip (or_empty (Some ''0x2222222222222222222222222222222222222222'')) \<noteq> []
   \<and> strip (or_empty (r_to ex_request)) \<noteq> []
   \<and> snd (complete ex_db ex_session
             (ex_request\<lparr>r_to := Some ''0x2222222222222222222222222222222222222222''\<rparr>) 0)
       = snd (complete ex_db ex_session (ex_request\<lparr>r_to := r_to ex_request\<rparr>) 0)
   \<and> pay_pay_to
         (last (payments (fst (complete ex_db ex_session
            (ex_request\<lparr>r_to := Some ''0x2222222222222222222222222222222222222222''\<rparr>) 0))))
       = ''0x2222222222222222222222222222222222222222''"
proof -
  have ne: "strip (or_empty (Some ''0x2222222222222222222222222222222222222222'')) \<noteq> []"
    "strip (or_empty (r_to ex_request)) \<noteq> []"
    by (simp_all add: ex_other_recipient_strip ex_strings DEFAULT_PAYOUT_ADDRESS_def)
  have run: "complete ex_db ex_session
               (ex_request\<lparr>r_to := Some ''0x2222222222222222222222222222222222222222''\<rparr>) 0
             = (fst (complete ex_db ex_session
                  (ex_request\<lparr>r_to := Some ''0x2222222222222222222222222222222222222222''\<rparr>) 0),
                Inr \<lparr>ok_payment_id = 0, ok_base_payment_id = Some ''pay_1''\<rparr>)"
    by (simp add: ex_other_recipient)
  note any = complete_accepts_any_recipient [OF ne, of ex_db ex_session ex_request 0]
  from any have same:
    "snd (complete ex_db ex_session
            (ex_request\<lparr>r_to := Some ''0x2222222222222222222222222222222222222222''\<rparr>) 0)
       = snd (complete ex_db ex_session (ex_request\<lparr>r_to := r_to ex_request\<rparr>) 0)"
    by (rule conjunct1)
  from any run have "pay_pay_to
         (last (payments (fst (complete ex_db ex_session
            (ex_request\<lparr>r_to := Some ''0x2222222222222222222222222222222222222222''\<rparr>) 0))))
       = strip (or_empty (Some ''0x2222222222222222222222222222222222222222''))"
    by blast
  with same ne show ?thesis by (simp only: ex_other_recipient_strip) simp
qed

subsection \<open>Quantity of a quote\<close>

lemma start_resolved:
  assumes "start_resolves d sess eid tidx now ti oid ev"
  shows "start d sess eid tidx (Num n) now =
           (let tr = ev_tiers ev ! nat ti;
                max_allowed = (if t_per_order_limit tr > 0 then t_per_order_limit tr
                               else a_available (tier_availability d oid ti tr));
                qty = clamp_quantity n max_allowed;
                q = \<lparr>q_event_id = or_empty eid, q_tier_idx = ti, q_quantity = qty,
                     q_unit_price = t_price tr,
                     q_amount = py_round (f_mul (t_price tr) (float_of_int qty))
                                  USDC_DECIMALS,
                     q_max_allowed = max_allowed,
                     q_payout = find_payout_address d ev, q_chain_id = 8453,
                     q_usdc = ''0x833589fCD6eDb6E08f4c7C32D4f71b54bdA02913''\<rparr>
            in if find_payout_address d ev = [] then (sess, Inl payout_not_configured)
               else (sess\<lparr>checkout_current := Some q\<rparr>, Inr q))"
  using assms
  by (simp add: start_resolves_def start_def Let_def int_or_def NETS_def ACTIVE_NETWORK_def)


lemma ex_payout_any_tiers:
  "find_payout_address d (ex_event\<lparr>ev_tiers := ts\<rparr>) = DEFAULT_PAYOUT_ADDRESS"
  by (simp add: find_payout_address_def ex_event_def norm_addr_def or_empty_def strip_def
        to_oid_def lookup_party_def Let_def DEFAULT_PAYOUT_ADDRESS_def py_space_def)

lemma ex_limit5_available:
  "a_available (tier_availability ex_db_limit5 ex_oid 0 ex_tier_limit5) = 2"
  by (simp add: tier_availability_def count_tickets_def ex_db_limit5_def ex_db_def
        ex_tier_limit5_def ex_tier_def Let_def)

lemma ex_limit2_available:
  "a_available (tier_availability ex_db_limit2 ex_oid 0 ex_tier_limit2) = 10"
  by (simp add: tier_availability_def count_tickets_def ex_db_limit2_def ex_db_def
        ex_tier_limit2_def ex_tier_def Let_def)

lemma ex_limit5_resolves:
  "start_resolves ex_db_limit5 ex_session (Some ex_oid) (Num 0) 0 0 ex_oid
     (ex_event\<lparr>ev_tiers := [ex_tier_limit5]\<rparr>)"
  using ex_limit5_available
  by (simp add: start_resolves_def ex_session_def int_or_def or_empty_def ex_oid_ok
        ex_db_limit5_def ex_event_def tier_sales_open_def ex_tier_limit5_def ex_tier_def)

lemma ex_limit2_resolves:
  "start_resolves ex_db_limit2 ex_session (Some ex_oid) (Num 0) 0 0 ex_oid
     (ex_event\<lparr>ev_tiers := [ex_tier_limit2]\<rparr>)"
  using ex_limit2_available
  by (simp add: start_resolves_def ex_session_def int_or_def or_empty_def ex_oid_ok
        ex_db_limit2_def ex_event_def tier_sales_open_def ex_tier_limit2_def ex_tier_def)

lemma dflt_nonempty: "DEFAULT_PAYOUT_ADDRESS \<noteq> []"
  by (simp add: DEFAULT_PAYOUT_ADDRESS_def)

lemma ex_limit2_start:
  "snd (start ex_db_limit2 ex_session (Some ex_oid) (Num 0) (Num 5) 0)
     = Inr \<lparr>q_event_id = ex_oid, q_tier_idx = 0, q_quantity = 2, q_unit_price = Fin 10,
            q_amount = Fin 20, q_max_allowed = 2, q_payout = DEFAULT_PAYOUT_ADDRESS,
            q_chain_id = 8453, q_usdc = ''0x833589fCD6eDb6E08f4c7C32D4f71b54bdA02913''\<rparr>"
proof -
  have amount: "py_round (f_mul (Fin 10) (float_of_int 2)) USDC_DECIMALS = Fin 20"
    by (rule ex_amounts)
  have lim: "t_per_order_limit ex_tier_limit2 = 2" "t_price ex_tier_limit2 = Fin 10"
    by (simp_all add: ex_tier_limit2_def ex_tier_def)
  have clamp: "clamp_quantity 5 2 = 2" by (simp add: clamp_quantity_def)
  show ?thesis
    by (simp add: start_resolved [OF ex_limit2_resolves] ex_payout_any_tiers dflt_nonempty
          Let_def lim clamp amount or_empty_def)
qed

lemma ex_limit5_start:
  "snd (start ex_db_limit5 ex_session (Some ex_oid) (Num 0) (Num 4) 0)
     = Inr \<lparr>q_event_id = ex_oid, q_tier_idx = 0, q_quantity = 4, q_unit_price = Fin 10,
            q_amount = Fin 40, q_max_allowed = 5, q_payout = DEFAULT_PAYOUT_ADDRESS,
            q_chain_id = 8453, q_usdc = ''0x833589fCD6eDb6E08f4c7C32D4f71b54bdA02913''\<rparr>"
proof -
  have amount: "py_round (f_mul (Fin 10) (float_of_int 4)) USDC_DECIMALS = Fin 40"
    by (rule ex_amounts)
  have lim: "t_per_order_limit ex_tier_limit5 = 5" "t_price ex_tier_limit5 = Fin 10"
    by (simp_all add: ex_tier_limit5_def ex_tier_def)
  have clamp: "clamp_quantity 4 5 = 4" by (simp add: clamp_quantity_def)
  show ?thesis
    by (simp add: start_resolved [OF ex_limit5_resolves] ex_payout_any_tiers dflt_nonempty
          Let_def lim clamp amount or_empty_def)
qed

lemma ex_limit5_complete:
  "complete ex_db_limit5 ex_session (ex_request\<lparr>r_quantity := Num 4, r_amountUSDC := Amount 40\<rparr>)
     0 = (ex_db_limit5, Inl sold_out)"
proof -
  have res: "request_resolves ex_db_limit5 ex_session
               (ex_request\<lparr>r_quantity := Num 4, r_amountUSDC := Amount 40\<rparr>)
               ''u1'' ex_oid (ex_event\<lparr>ev_tiers := [ex_tier_limit5]\<rparr>) 0 4 8453"
    using ex_resolves_one
    by (simp add: request_resolves_def ex_db_limit5_def ex_db_def int_or_def ex_event_def)
  have "4 > a_available (tier_availability ex_db_limit5 ex_oid 0
                           (ev_tiers (ex_event\<lparr>ev_tiers := [ex_tier_limit5]\<rparr>) ! nat 0))"
    using ex_limit5_available by simp
  then show ?thesis by (simp add: complete_resolved [OF res])
qed

text \<open>
  Claim C5. \<^verbatim>\<open>start\<close> is to quote the quantity
  \<open>max 1 (min requested (min limit_or_available available))\<close>. The example of the claim
  comes out as claimed: with a limit of 2 per order and 10 units available, a request for 5
  units gets a quote for 2. The bound by the availability is missing when a limit per
  order is set: with a limit of 5 per order and 2 units available, a request for 4 units
  gets a quote for 4 units and their price, where the formula gives 2; \<^verbatim>\<open>complete\<close>
  then refuses a claim for these 4 units with \<open>sold_out\<close>.
\<close>

theorem start_quotes_beyond_availability:
  "t_per_order_limit ex_tier_limit2 = 2
   \<and> a_available (tier_availability ex_db_limit2 ex_oid 0 ex_tier_limit2) = 10
   \<and> map_sum id q_quantity (snd (start ex_db_limit2 ex_session (Some ex_oid) (Num 0) (Num 5) 0))
       = Inr 2
   \<and> t_per_order_limit ex_tier_limit5 = 5
   \<and> a_available (tier_availability ex_db_limit5 ex_oid 0 ex_tier_limit5) = 2
   \<and> map_sum id q_quantity (snd (start ex_db_limit5 ex_session (Some ex_oid) (Num 0) (Num 4) 0))
       = Inr 4
   \<and> map_sum id q_amount (snd (start ex_db_limit5 ex_session (Some ex_oid) (Num 0) (Num 4) 0))
       = Inr (Fin 40)
   \<and> max 1 (min 4 (min 5 2)) = (2::int)
   \<and> complete ex_db_limit5 ex_session
         (ex_request\<lparr>r_quantity := Num 4, r_amountUSDC := Amount 40\<rparr>) 0
       = (ex_db_limit5, Inl sold_out)"
  by (simp add: ex_limit2_available ex_limit5_available ex_limit2_start ex_limit5_start
        ex_limit5_complete)
     (simp add: ex_tier_limit2_def ex_tier_limit5_def)

subsection \<open>Order of payout resolution\<close>

lemma rev_dropWhile_rev_prefix:
  "\<exists>zs. xs = rev (dropWhile P (rev xs)) @ zs \<and> (\<forall>z \<in> set zs. P z)"
proof -
  have "rev xs = takeWhile P (rev xs) @ dropWhile P (rev xs)" by simp
  then have "xs = rev (dropWhile P (rev xs)) @ rev (takeWhile P (rev xs))"
    by (metis rev_append rev_rev_ident)
  moreover have "\<forall>z \<in> set (rev (takeWhile P (rev xs))). P z"
    by (auto dest: set_takeWhileD)
  ultimately show ?thesis by blast
qed

lemma strip_no_leading:
  "strip s = [] \<or> \<not> py_space (hd (strip s))"
proof (cases "strip s = []")
  case True
  then show ?thesis by simp
next
  case False
  let ?t = "dropWhile py_space s"
  obtain zs where t: "?t = strip s @ zs"
    using rev_dropWhile_rev_prefix [of ?t py_space] by (auto simp add: strip_def)
  with False have "hd (strip s) = hd ?t" by simp
  moreover from t False have "?t \<noteq> []" by auto
  then have "\<not> py_space (hd ?t)" by (rule hd_dropWhile)
  ultimately show ?thesis by simp
qed

lemma strip_idem: "strip (strip s) = strip s"
proof -
  have lead: "dropWhile py_space (strip s) = strip s"
    using strip_no_leading [of s] by (cases "strip s") auto
  have "dropWhile py_space (rev (strip s)) = rev (strip s)"
    by (simp add: strip_def dropWhile_idem)
  then have "rev (dropWhile py_space (rev (strip s))) = strip s" by simp
  with lead show ?thesis by (simp add: strip_def [of "strip s"])
qed

lemma strip_Nil: "strip [] = []"
  by (simp add: strip_def)

lemma strip_pick: "strip (pick vs) = pick vs"
  by (induction vs rule: pick.induct) (simp_all add: strip_idem strip_Nil)

lemma norm_addr_accepted:
  "norm_addr v = (if accepted_form (strip (or_empty v)) then strip (or_empty v) else [])"
  by (simp add: norm_addr_def accepted_form_def Let_def)

lemma accepted_nonempty: "accepted_form s \<Longrightarrow> s \<noteq> []"
  by (auto simp add: accepted_form_def)

lemma first_accepted_simps:
  "first_accepted [] = []"
  "first_accepted (c # cs) = (if accepted_form c then c else first_accepted cs)"
  by (simp_all add: first_accepted_def)

lemma first_accepted_append:
  "first_accepted (cs @ ds) = (if first_accepted cs \<noteq> [] then first_accepted cs
                               else first_accepted ds)"
  by (induction cs) (auto simp add: first_accepted_simps accepted_nonempty)

lemma first_norm_first_accepted:
  "first_norm vs = first_accepted (map (\<lambda>v. strip (or_empty v)) vs)"
  by (induction vs) (auto simp add: first_accepted_simps norm_addr_accepted accepted_nonempty)

lemma lookup_party_first_accepted:
  "lookup_party oid coll = first_accepted (party_candidates oid coll)"
  by (simp add: lookup_party_def party_candidates_def first_norm_first_accepted
        first_accepted_simps split: option.splits)

lemma find_payout_first_accepted:
  "find_payout_address d ev = first_accepted (payout_candidates d ev)"
  by (simp add: find_payout_address_def payout_candidates_def Let_def first_accepted_simps
        first_accepted_append lookup_party_first_accepted norm_addr_accepted or_empty_def
        strip_pick accepted_nonempty)


lemma valid_accepted: "syntactically_valid s \<Longrightarrow> accepted_form s"
  by (simp add: syntactically_valid_def accepted_form_def)

lemma ex_user_oid_ok: "to_oid (Some ex_user_oid) = Some ex_user_oid"
  by (simp add: to_oid_def ex_user_oid_def ascii_space_def is_hex_def hex_lower_def)

lemma strip_plain:
  "strip ''0xaaaaaaaaaaaaaaaaaaaaaaaaaaaaaaaaaaaaaaaa'' = ''0xaaaaaaaaaaaaaaaaaaaaaaaaaaaaaaaaaaaaaaaa''"
  "strip ''0xcccccccccccccccccccccccccccccccccccccccc'' = ''0xcccccccccccccccccccccccccccccccccccccccc''"
  "strip ''0xzzzzzzzzzzzzzzzzzzzzzzzzzzzzzzzzzzzzzzzz'' = ''0xzzzzzzzzzzzzzzzzzzzzzzzzzzzzzzzzzzzzzzzz''"
  "strip ''ask the organizer'' = ''ask the organizer''"
  "strip DEFAULT_PAYOUT_ADDRESS = DEFAULT_PAYOUT_ADDRESS"
  by (simp_all add: strip_def py_space_def DEFAULT_PAYOUT_ADDRESS_def)



lemma pick_accepted:
  "accepted_form (pick vs) \<Longrightarrow> first_accepted (map (\<lambda>v. strip (or_empty v)) vs) = pick vs"
proof (induction vs rule: pick.induct)
  case 1
  then show ?case by (simp add: accepted_form_def)
next
  case (2 vs)
  have "\<not> accepted_form (strip (or_empty None))"
    by (simp add: or_empty_def strip_Nil accepted_form_def)
  with 2 show ?case by (simp add: first_accepted_simps)
next
  case (3 v vs)
  show ?case
  proof (cases "strip v = []")
    case True
    then have "\<not> accepted_form (strip (or_empty (Some v)))"
      by (simp add: or_empty_def accepted_form_def)
    with 3 True show ?thesis by (simp add: first_accepted_simps)
  next
    case False
    with 3 show ?thesis by (simp add: first_accepted_simps or_empty_def)
  qed
qed

lemma pick_member:
  "pick vs = [] \<or> pick vs \<in> set (map (\<lambda>v. strip (or_empty v)) vs)"
  by (induction vs rule: pick.induct) (auto simp add: or_empty_def)

lemma none_accepted:
  "(\<forall>c \<in> set cs. \<not> accepted_form c) \<Longrightarrow> first_accepted cs = []"
  by (induction cs) (simp_all add: first_accepted_simps)

lemma event_candidates_first:
  assumes "accepted_form (pick vs)
           \<or> (\<forall>v \<in> set vs. \<not> accepted_form (strip (or_empty v)))"
  shows "first_accepted (map (\<lambda>v. strip (or_empty v)) vs) = first_accepted [pick vs]"
proof (cases "accepted_form (pick vs)")
  case True
  then show ?thesis by (simp add: pick_accepted first_accepted_simps)
next
  case False
  with assms have none: "\<forall>c \<in> set (map (\<lambda>v. strip (or_empty v)) vs). \<not> accepted_form c"
    by auto
  from False none_accepted [OF none] show ?thesis by (simp add: first_accepted_simps)
qed

lemma find_payout_in_order:
  assumes "accepted_form (pick (event_fields ev))
           \<or> (\<forall>v \<in> set (event_fields ev). \<not> accepted_form (strip (or_empty v)))"
  shows "find_payout_address d ev = first_accepted (candidates_in_order d ev)"
proof -
  let ?oid = "to_oid (py_or [ev_organizer_id ev, ev_organizer_user_id ev, ev_organizer ev])"
  let ?rest = "party_candidates ?oid (organizers d) @ party_candidates ?oid (users d)
               @ [strip DEFAULT_PAYOUT_ADDRESS]"
  have "find_payout_address d ev = first_accepted ([pick (event_fields ev)] @ ?rest)"
    by (simp add: find_payout_first_accepted payout_candidates_def Let_def event_fields_def)
  also have "\<dots> = first_accepted (map (\<lambda>v. strip (or_empty v)) (event_fields ev) @ ?rest)"
    unfolding first_accepted_append [of "[pick (event_fields ev)]"]
      first_accepted_append [of "map (\<lambda>v. strip (or_empty v)) (event_fields ev)"]
      event_candidates_first [OF assms]
    by (rule refl)
  finally show ?thesis by (simp add: candidates_in_order_def Let_def)
qed


text \<open>
  Claim C9, as amended. The resolver returns the first candidate that has 42 characters and
  starts with \<open>0x\<close> (whether the other 40 are hexadecimal is not checked), the candidates
  being, in this order, the address fields of the event, the fields of the organizer
  document, the fields of the user document and the fall-back address; this holds for
  every event whose first non-blank address field has that form, or none of whose address
  fields has it. In particular, when the event has no address field, the organizer
  document yields nothing and the user account of the organizer holds a valid
  \<open>wallet_address\<close> (and no usable \<open>payout_address\<close> before it), that address is
  returned.
\<close>

theorem payout_resolution_order:
  "(accepted_form (pick (event_fields ev))
      \<or> (\<forall>v \<in> set (event_fields ev). \<not> accepted_form (strip (or_empty v)))
    \<longrightarrow> find_payout_address d ev = first_accepted (candidates_in_order d ev))
   \<and> (\<forall>i us u.
         pick [ev_payout_address ev, ev_organizer_payout_address ev, ev_treasury_address ev,
               ev_usdc_payout ev, ev_wallet_address ev] = []
         \<and> to_oid (py_or [ev_organizer_id ev, ev_organizer_user_id ev, ev_organizer ev]) = Some i
         \<and> lookup_party (Some i) (organizers d) = []
         \<and> users d = Some us \<and> us i = Some u
         \<and> norm_addr (p_payout_address u) = []
         \<and> syntactically_valid (strip (or_empty (p_wallet_address u)))
         \<longrightarrow> find_payout_address d ev = strip (or_empty (p_wallet_address u)))"
proof
  show "accepted_form (pick (event_fields ev))
          \<or> (\<forall>v \<in> set (event_fields ev). \<not> accepted_form (strip (or_empty v)))
        \<longrightarrow> find_payout_address d ev = first_accepted (candidates_in_order d ev)"
    using find_payout_in_order by blast
next
  show "\<forall>i us u.
          pick [ev_payout_address ev, ev_organizer_payout_address ev, ev_treasury_address ev,
                ev_usdc_payout ev, ev_wallet_address ev] = []
          \<and> to_oid (py_or [ev_organizer_id ev, ev_organizer_user_id ev, ev_organizer ev]) = Some i
          \<and> lookup_party (Some i) (organizers d) = []
          \<and> users d = Some us \<and> us i = Some u
          \<and> norm_addr (p_payout_address u) = []
          \<and> syntactically_valid (strip (or_empty (p_wallet_address u)))
          \<longrightarrow> find_payout_address d ev = strip (or_empty (p_wallet_address u))"
  proof (intro allI impI, elim conjE)
    fix i us u
    assume none: "pick [ev_payout_address ev, ev_organizer_payout_address ev,
                        ev_treasury_address ev, ev_usdc_payout ev, ev_wallet_address ev] = []"
      and oid: "to_oid (py_or [ev_organizer_id ev, ev_organizer_user_id ev, ev_organizer ev])
                  = Some i"
      and org: "lookup_party (Some i) (organizers d) = []"
      and us: "users d = Some us" "us i = Some u"
      and first: "norm_addr (p_payout_address u) = []"
      and wallet: "syntactically_valid (strip (or_empty (p_wallet_address u)))"
    let ?w = "strip (or_empty (p_wallet_address u))"
    from wallet have acc: "accepted_form ?w" by (rule valid_accepted)
    then have w: "norm_addr (p_wallet_address u) = ?w" "?w \<noteq> []"
      by (simp_all add: norm_addr_accepted accepted_nonempty)
    with first us have "lookup_party (Some i) (users d) = ?w"
      by (simp add: lookup_party_def party_fields_def)
    with none oid org w(2) show "find_payout_address d ev = ?w"
      by (simp add: find_payout_address_def Let_def norm_addr_def or_empty_def strip_Nil)
  qed
qed

theorem payout_resolution_order_witness:
  "map (\<lambda>v. accepted_form (strip (or_empty v))) (event_fields ex_event_user)
     = [False, False, False, False, False]
   \<and> pick [ev_payout_address ex_event_user, ev_organizer_payout_address ex_event_user,
           ev_treasury_address ex_event_user, ev_usdc_payout ex_event_user,
           ev_wallet_address ex_event_user] = []
   \<and> to_oid (py_or [ev_organizer_id ex_event_user, ev_organizer_user_id ex_event_user,
                    ev_organizer ex_event_user]) = Some ex_user_oid
   \<and> lookup_party (Some ex_user_oid) (organizers ex_db_user) = []
   \<and> users ex_db_user = Some [ex_user_oid \<mapsto> ex_user]
   \<and> norm_addr (p_payout_address ex_user) = []
   \<and> syntactically_valid (strip (or_empty (p_wallet_address ex_user)))
   \<and> find_payout_address ex_db_user ex_event_user
       = ''0xaaaaaaaaaaaaaaaaaaaaaaaaaaaaaaaaaaaaaaaa''
   \<and> first_accepted (candidates_in_order ex_db_user ex_event_user)
       = ''0xaaaaaaaaaaaaaaaaaaaaaaaaaaaaaaaaaaaaaaaa''
   \<and> find_payout_address ex_db_user ex_event_user \<noteq> DEFAULT_PAYOUT_ADDRESS
   \<and> accepted_form (pick (event_fields ex_event_nonhex))
   \<and> first_accepted (candidates_in_order ex_db ex_event_nonhex)
       = ''0xzzzzzzzzzzzzzzzzzzzzzzzzzzzzzzzzzzzzzzzz''"
proof -
  have blank: "\<forall>v \<in> set (event_fields ex_event_user). \<not> accepted_form (strip (or_empty v))"
    by (simp add: event_fields_def ex_event_user_def ex_event_def or_empty_def strip_Nil
          accepted_form_def)
  have none: "pick [ev_payout_address ex_event_user, ev_organizer_payout_address ex_event_user,
                    ev_treasury_address ex_event_user, ev_usdc_payout ex_event_user,
                    ev_wallet_address ex_event_user] = []"
    by (simp add: ex_event_user_def ex_event_def)
  have oid: "to_oid (py_or [ev_organizer_id ex_event_user, ev_organizer_user_id ex_event_user,
                            ev_organizer ex_event_user]) = Some ex_user_oid"
    by (simp add: ex_event_user_def ex_event_def truthy_def ex_user_oid_ok)
       (simp add: ex_user_oid_def)
  have org: "lookup_party (Some ex_user_oid) (organizers ex_db_user) = []"
    by (simp add: lookup_party_def ex_db_user_def party_fields_def ex_organizer_def
          norm_addr_def or_empty_def strip_Nil)
  have us: "users ex_db_user = Some [ex_user_oid \<mapsto> ex_user]"
    "[ex_user_oid \<mapsto> ex_user] ex_user_oid = Some ex_user"
    by (simp_all add: ex_db_user_def)
  have first: "norm_addr (p_payout_address ex_user) = []"
    by (simp add: ex_user_def norm_addr_def or_empty_def strip_Nil)
  have w: "strip (or_empty (p_wallet_address ex_user))
             = ''0xaaaaaaaaaaaaaaaaaaaaaaaaaaaaaaaaaaaaaaaa''"
    by (simp add: ex_user_def or_empty_def strip_plain)
  have wallet: "syntactically_valid (strip (or_empty (p_wallet_address ex_user)))"
    by (simp add: w syntactically_valid_def is_hex_def)
  have fields: "map (\<lambda>v. accepted_form (strip (or_empty v))) (event_fields ex_event_user)
                  = [False, False, False, False, False]"
    by (simp add: event_fields_def ex_event_user_def ex_event_def or_empty_def strip_Nil
          accepted_form_def)
  note user = payout_resolution_order [of ex_event_user ex_db_user]
  note nonhex = payout_resolution_order [of ex_event_nonhex ex_db]
  from user [THEN conjunct1] blank
  have order: "find_payout_address ex_db_user ex_event_user
                 = first_accepted (candidates_in_order ex_db_user ex_event_user)"
    by blast
  from user [THEN conjunct2] none oid org us first wallet
  have found: "find_payout_address ex_db_user ex_event_user
                 = strip (or_empty (p_wallet_address ex_user))"
    by blast
  have picked: "pick (event_fields ex_event_nonhex) = ''0xzzzzzzzzzzzzzzzzzzzzzzzzzzzzzzzzzzzzzzzz''"
    by (simp add: event_fields_def ex_event_nonhex_def strip_plain)
  have acc: "accepted_form (pick (event_fields ex_event_nonhex))"
    unfolding picked by (simp add: accepted_form_def)
  from nonhex [THEN conjunct1] acc
  have order': "find_payout_address ex_db ex_event_nonhex
                  = first_accepted (candidates_in_order ex_db ex_event_nonhex)"
    by blast
  have direct: "find_payout_address ex_db ex_event_nonhex
                  = ''0xzzzzzzzzzzzzzzzzzzzzzzzzzzzzzzzzzzzzzzzz''"
    by (simp add: find_payout_address_def ex_event_nonhex_def ex_event_def strip_plain
          norm_addr_def or_empty_def Let_def)
  from found w have res: "find_payout_address ex_db_user ex_event_user
                            = ''0xaaaaaaaaaaaaaaaaaaaaaaaaaaaaaaaaaaaaaaaa''"
    by simp
  have differ: "''0xaaaaaaaaaaaaaaaaaaaaaaaaaaaaaaaaaaaaaaaa'' \<noteq> DEFAULT_PAYOUT_ADDRESS"
    by (simp add: DEFAULT_PAYOUT_ADDRESS_def)
  show ?thesis
    apply (intro conjI)
    using fields none oid org us(1) first wallet res order [symmetric] differ acc
      order' [symmetric] direct
    apply simp_all
    done
qed

text \<open>
  An event whose payout field is \<open>0x\<close> followed by 40 letters \<open>z\<close> resolves to that
  string, which is not a syntactically valid address.
\<close>

theorem payout_resolution_counterexample:
  "find_payout_address ex_db ex_event_nonhex = ''0xzzzzzzzzzzzzzzzzzzzzzzzzzzzzzzzzzzzzzzzz''
   \<and> \<not> syntactically_valid ''0xzzzzzzzzzzzzzzzzzzzzzzzzzzzzzzzzzzzzzzzz''"
proof -
  have a: "find_payout_address ex_db ex_event_nonhex
             = ''0xzzzzzzzzzzzzzzzzzzzzzzzzzzzzzzzzzzzzzzzz''"
    by (simp add: find_payout_address_def ex_event_nonhex_def ex_event_def strip_plain
          norm_addr_def or_empty_def Let_def)
  have b: "\<not> syntactically_valid ''0xzzzzzzzzzzzzzzzzzzzzzzzzzzzzzzzzzzzzzzzz''"
    by (simp add: syntactically_valid_def is_hex_def)
  from a b show ?thesis by simp
qed

text \<open>
  An event whose first address field is a note and whose \<open>wallet_address\<close> holds an
  address: \<^verbatim>\<open>_pick\<close> hands over the note, which is not accepted, and the resolver goes
  on to the other sources, here the fall-back address.
\<close>

lemma ex_note_resolution:
  "ev_wallet_address ex_event_note = Some ''0xcccccccccccccccccccccccccccccccccccccccc''
   \<and> find_payout_address ex_db ex_event_note = ''0x98f869c3d188740ef666bbd97436f89c929826f7''"
proof -
  have "find_payout_address ex_db ex_event_note = ''0x98f869c3d188740ef666bbd97436f89c929826f7''"
    by (simp add: find_payout_address_def ex_event_note_def ex_event_def strip_plain
          norm_addr_def or_empty_def Let_def to_oid_def lookup_party_def)
       (simp add: DEFAULT_PAYOUT_ADDRESS_def)
  then show ?thesis by (simp add: ex_event_note_def)
qed


subsection \<open>Check and insert as separate steps\<close>

lemma complete_two_phase:
  "complete d sess data now =
     (case complete_check d sess data of
        Inl e \<Rightarrow> (d, Inl e)
      | Inr p \<Rightarrow> (fst (complete_write d data p now), Inr (snd (complete_write d data p now))))"
  by (simp add: complete_def complete_check_def complete_write_def Let_def case_prod_beta
        split: option.splits)

lemma complete_check_resolved:
  assumes "request_resolves d sess data a oid ev ti q c"
  shows "complete_check d sess data =
           (if q > a_available (tier_availability d oid ti (ev_tiers ev ! nat ti))
            then Inl sold_out
            else if amount_rejected (ev_tiers ev ! nat ti) q (r_amountUSDC data)
            then Inl amount_mismatch
            else Inr \<lparr>pn_attendee = a, pn_oid = oid, pn_event = ev, pn_tier_idx = ti,
                      pn_qty = q, pn_chain = c\<rparr>)"
  using assms by (simp add: request_resolves_def complete_check_def)

lemma request_resolves_events:
  assumes "events d' = events d"
  shows "request_resolves d' sess data a oid ev ti q c
           = request_resolves d sess data a oid ev ti q c"
  using assms by (simp add: request_resolves_def)

lemma unit_step_ok:
  assumes res: "request_resolves d sess data a oid ev ti 1 c"
    and amt: "\<not> amount_rejected (ev_tiers ev ! nat ti) 1 (r_amountUSDC data)"
    and less: "count_tickets d oid ti < t_supply (ev_tiers ev ! nat ti)"
  shows "\<not> isl (snd (complete d sess data now))"
    and "count_tickets (fst (complete d sess data now)) oid ti = count_tickets d oid ti + 1"
    and "events (fst (complete d sess data now)) = events d"
proof -
  have nonneg: "0 \<le> count_tickets d oid ti" by (simp add: count_tickets_def)
  with less have fits: "1 \<le> a_available (tier_availability d oid ti (ev_tiers ev ! nat ti))"
    by (simp add: tier_availability_def Let_def)
  note acc = complete_accepted [OF res fits amt, of now]
  show "\<not> isl (snd (complete d sess data now))" by (simp add: acc)
  show "count_tickets (fst (complete d sess data now)) oid ti = count_tickets d oid ti + 1"
    by (simp add: acc count_tickets_record_purchase [OF surjective_pairing])
  show "events (fst (complete d sess data now)) = events d"
    by (simp add: acc purchase_fst(5))
qed

lemma unit_step_out:
  assumes res: "request_resolves d sess data a oid ev ti 1 c"
    and eq: "count_tickets d oid ti = t_supply (ev_tiers ev ! nat ti)"
  shows "complete d sess data now = (d, Inl sold_out)"
proof -
  from eq have "1 > a_available (tier_availability d oid ti (ev_tiers ev ! nat ti))"
    by (simp add: tier_availability_def Let_def)
  then show ?thesis by (simp add: complete_resolved [OF res])
qed

lemma complete_each_Cons:
  "complete_each d sess (data # rest) now =
     (fst (complete_each (fst (complete d sess data now)) sess rest now),
      snd (complete d sess data now)
      # snd (complete_each (fst (complete d sess data now)) sess rest now))"
  by (simp add: case_prod_beta)

lemma sequential_units:
  assumes "request_resolves d sess data a oid ev ti 1 c"
    and "\<not> amount_rejected (ev_tiers ev ! nat ti) 1 (r_amountUSDC data)"
    and "count_tickets d oid ti \<le> t_supply (ev_tiers ev ! nat ti)"
  shows "length (filter (\<lambda>r. \<not> isl r) (snd (complete_each d sess (replicate N data) now)))
           = min N (nat (t_supply (ev_tiers ev ! nat ti) - count_tickets d oid ti))
         \<and> (\<forall>r \<in> set (snd (complete_each d sess (replicate N data) now)).
               isl r \<longrightarrow> r = Inl sold_out)
         \<and> count_tickets (fst (complete_each d sess (replicate N data) now)) oid ti
             = count_tickets d oid ti
               + int (min N (nat (t_supply (ev_tiers ev ! nat ti) - count_tickets d oid ti)))"
  using assms
proof (induction N arbitrary: d)
  case 0
  show ?case by simp
next
  case (Suc N)
  let ?S = "t_supply (ev_tiers ev ! nat ti)"
  let ?d1 = "fst (complete d sess data now)"
  let ?r1 = "snd (complete d sess data now)"
  let ?rest = "complete_each ?d1 sess (replicate N data) now"
  have unfold: "complete_each d sess (replicate (Suc N) data) now = (fst ?rest, ?r1 # snd ?rest)"
    unfolding replicate.simps by (rule complete_each_Cons)
  show ?case
  proof (cases "count_tickets d oid ti < ?S")
    case True
    note ok = unit_step_ok(1) [OF Suc.prems(1,2) True, of now]
    note cnt = unit_step_ok(2) [OF Suc.prems(1,2) True, of now]
    note ev = unit_step_ok(3) [OF Suc.prems(1,2) True, of now]
    from Suc.prems(1) have res1: "request_resolves ?d1 sess data a oid ev ti 1 c"
      by (simp only: request_resolves_events [OF ev])
    from cnt True have le1: "count_tickets ?d1 oid ti \<le> ?S" by simp
    note ih = Suc.IH [OF res1 Suc.prems(2) le1]
    note ih1 = ih [THEN conjunct1]
    note ih2 = ih [THEN conjunct2, THEN conjunct1]
    note ih3 = ih [THEN conjunct2, THEN conjunct2]
    from True cnt have m: "min (Suc N) (nat (?S - count_tickets d oid ti))
                             = Suc (min N (nat (?S - count_tickets ?d1 oid ti)))"
      by (simp only: min_def) auto
    have c1: "length (filter (\<lambda>r. \<not> isl r) (?r1 # snd ?rest))
                = min (Suc N) (nat (?S - count_tickets d oid ti))"
      unfolding m using ok ih1 by simp
    have c2: "\<forall>r \<in> set (?r1 # snd ?rest). isl r \<longrightarrow> r = Inl sold_out"
      using ok ih2 by simp
    have c3: "count_tickets (fst ?rest) oid ti
                = count_tickets d oid ti + int (min (Suc N) (nat (?S - count_tickets d oid ti)))"
      unfolding m using ih3 cnt by simp
    show ?thesis unfolding unfold fst_conv snd_conv
      by (rule conjI [OF c1 conjI [OF c2 c3]])
  next
    case False
    with Suc.prems(3) have eq: "count_tickets d oid ti = ?S" by simp
    note out = unit_step_out [OF Suc.prems(1) eq, of now]
    from out have d1: "?d1 = d" and r1: "?r1 = Inl sold_out" by simp_all
    note ih = Suc.IH [OF Suc.prems]
    note ih1 = ih [THEN conjunct1]
    note ih2 = ih [THEN conjunct2, THEN conjunct1]
    note ih3 = ih [THEN conjunct2, THEN conjunct2]
    from eq have z: "nat (?S - count_tickets d oid ti) = 0" by simp
    have c1: "length (filter (\<lambda>r. \<not> isl r) (?r1 # snd ?rest))
                = min (Suc N) (nat (?S - count_tickets d oid ti))"
      unfolding d1 r1 using ih1 z by simp
    have c2: "\<forall>r \<in> set (?r1 # snd ?rest). isl r \<longrightarrow> r = Inl sold_out"
      unfolding d1 r1 using ih2 by simp
    have c3: "count_tickets (fst ?rest) oid ti
                = count_tickets d oid ti + int (min (Suc N) (nat (?S - count_tickets d oid ti)))"
      unfolding d1 using ih3 z by simp
    show ?thesis unfolding unfold fst_conv snd_conv
      by (rule conjI [OF c1 conjI [OF c2 c3]])
  qed
qed


text \<open>
  Claim C4, as amended. \<^verbatim>\<open>complete\<close> is a read phase followed by a write phase: the number
  of tickets sold is counted first and the new rows are inserted afterwards. When \<open>N\<close>
  completions of one unit each are served one after another against a tier whose ticket
  count does not exceed its supply, exactly \<open>min N (supply - sold)\<close> of them succeed, all
  the others end with \<open>sold_out\<close>, and the ticket count grows by the number of successes.
\<close>

theorem completions_one_after_another:
  assumes "request_resolves d sess data a oid ev ti 1 c"
    and "\<not> amount_rejected (ev_tiers ev ! nat ti) 1 (r_amountUSDC data)"
    and "count_tickets d oid ti \<le> t_supply (ev_tiers ev ! nat ti)"
  shows "complete d sess data now =
           (case complete_check d sess data of
              Inl e \<Rightarrow> (d, Inl e)
            | Inr p \<Rightarrow> (fst (complete_write d data p now),
                        Inr (snd (complete_write d data p now))))
         \<and> length (filter (\<lambda>r. \<not> isl r) (snd (complete_each d sess (replicate N data) now)))
             = min N (nat (t_supply (ev_tiers ev ! nat ti) - count_tickets d oid ti))
         \<and> (\<forall>r \<in> set (snd (complete_each d sess (replicate N data) now)).
               isl r \<longrightarrow> r = Inl sold_out)
         \<and> count_tickets (fst (complete_each d sess (replicate N data) now)) oid ti
             = count_tickets d oid ti
               + int (min N (nat (t_supply (ev_tiers ev ! nat ti) - count_tickets d oid ti)))"
proof
  show "complete d sess data now =
          (case complete_check d sess data of
             Inl e \<Rightarrow> (d, Inl e)
           | Inr p \<Rightarrow> (fst (complete_write d data p now),
                       Inr (snd (complete_write d data p now))))"
    by (rule complete_two_phase)
next
  from assms
  show "length (filter (\<lambda>r. \<not> isl r) (snd (complete_each d sess (replicate N data) now)))
          = min N (nat (t_supply (ev_tiers ev ! nat ti) - count_tickets d oid ti))
        \<and> (\<forall>r \<in> set (snd (complete_each d sess (replicate N data) now)).
              isl r \<longrightarrow> r = Inl sold_out)
        \<and> count_tickets (fst (complete_each d sess (replicate N data) now)) oid ti
            = count_tickets d oid ti
              + int (min N (nat (t_supply (ev_tiers ev ! nat ti) - count_tickets d oid ti)))"
    by (rule sequential_units)
qed

lemma ex_single_resolves:
  "request_resolves ex_db_single ex_session ex_request ''u1'' ex_oid ex_event_single 0 1 8453"
  "request_resolves ex_db_single ex_session ex_request_other ''u1'' ex_oid ex_event_single
     0 1 8453"
  using ex_resolves_one
  by (simp_all add: request_resolves_def ex_db_single_def ex_event_single_def
        ex_request_other_def ex_db_def ex_event_def)

lemma ex_single_amount:
  "\<not> amount_rejected (ev_tiers ex_event_single ! nat 0) 1 (r_amountUSDC ex_request)"
  "\<not> amount_rejected (ev_tiers ex_event_single ! nat 0) 1 (r_amountUSDC ex_request_other)"
  by (simp_all add: amount_rejected_def ex_event_single_def ex_tier_single_def ex_tier_def
        ex_request_def ex_request_other_def ex_amounts fl_zero fl_micro)

lemma ex_single_count: "count_tickets ex_db_single ex_oid 0 = 0"
  by (simp add: count_tickets_def ex_db_single_def ex_db_def)

lemma ex_single_supply: "t_supply (ev_tiers ex_event_single ! nat 0) = 1"
  by (simp add: ex_event_single_def ex_tier_single_def)

lemma ex_single_checks:
  "complete_check ex_db_single ex_session ex_request = Inr ex_pending"
  "complete_check ex_db_single ex_session ex_request_other = Inr ex_pending"
proof -
  have fits: "\<not> 1 > a_available (tier_availability ex_db_single ex_oid 0
                                   (ev_tiers ex_event_single ! nat 0))"
    using ex_single_count ex_single_supply by (simp add: tier_availability_def Let_def)
  show "complete_check ex_db_single ex_session ex_request = Inr ex_pending"
    using fits ex_single_amount(1)
    by (simp add: complete_check_resolved [OF ex_single_resolves(1)] ex_pending_def)
  show "complete_check ex_db_single ex_session ex_request_other = Inr ex_pending"
    using fits ex_single_amount(2)
    by (simp add: complete_check_resolved [OF ex_single_resolves(2)] ex_pending_def)
qed

text \<open>
  Two claims for the single unit of a tier, served at the same time: both read phases run
  on the database without tickets and pass, then both write phases run. Two tickets exist
  for a supply of one; neither request ended with \<open>sold_out\<close>.
\<close>

theorem oversell_counterexample:
  "t_supply ex_tier_single = 1
   \<and> count_tickets ex_db_single ex_oid 0 = 0
   \<and> complete_check ex_db_single ex_session ex_request = Inr ex_pending
   \<and> complete_check ex_db_single ex_session ex_request_other = Inr ex_pending
   \<and> count_tickets
         (fst (complete_write (fst (complete_write ex_db_single ex_request ex_pending 0))
                 ex_request_other ex_pending 1))
         ex_oid 0
       = 2"
proof -
  have "count_tickets
          (fst (complete_write (fst (complete_write ex_db_single ex_request ex_pending 0))
                  ex_request_other ex_pending 1))
          ex_oid 0
        = 2"
    by (simp add: complete_write_def count_tickets_record_purchase [OF surjective_pairing]
          ex_pending_def ex_single_count)
  with ex_single_checks ex_single_count show ?thesis
    by (simp add: ex_tier_single_def)
qed

theorem completions_one_after_another_witness:
  "request_resolves ex_db_single ex_session ex_request ''u1'' ex_oid ex_event_single 0 1 8453
   \<and> \<not> amount_rejected (ev_tiers ex_event_single ! nat 0) 1 (r_amountUSDC ex_request)
   \<and> count_tickets ex_db_single ex_oid 0 \<le> t_supply (ev_tiers ex_event_single ! nat 0)
   \<and> length (filter (\<lambda>r. \<not> isl r)
               (snd (complete_each ex_db_single ex_session (replicate 2 ex_request) 0)))
       = 1
   \<and> count_tickets (fst (complete_each ex_db_single ex_session (replicate 2 ex_request) 0))
         ex_oid 0
       = 1"
proof -
  have le: "count_tickets ex_db_single ex_oid 0 \<le> t_supply (ev_tiers ex_event_single ! nat 0)"
    unfolding ex_single_count ex_single_supply by simp
  note all = completions_one_after_another
               [OF ex_single_resolves(1) ex_single_amount(1) le, of 0 2]
  note n = all [THEN conjunct2, THEN conjunct1]
  note k = all [THEN conjunct2, THEN conjunct2, THEN conjunct2]
  have m: "min 2 (nat (t_supply (ev_tiers ex_event_single ! nat 0)
                       - count_tickets ex_db_single ex_oid 0)) = 1"
    unfolding ex_single_count ex_single_supply by simp
  have n': "length (filter (\<lambda>r. \<not> isl r)
               (snd (complete_each ex_db_single ex_session (replicate 2 ex_request) 0))) = 1"
    using n by (simp only: m)
  have k': "count_tickets (fst (complete_each ex_db_single ex_session (replicate 2 ex_request) 0))
              ex_oid 0 = 1"
    using k unfolding m by (simp add: ex_single_count)
  show ?thesis
    by (intro conjI) (rule ex_single_resolves(1) ex_single_amount(1) le n' k')+
qed

subsection \<open>A storage that refuses an insert\<close>



lemma complete_check_pending:
  assumes "complete_check d sess data = Inr p"
  shows "request_resolves d sess data (pn_attendee p) (pn_oid p) (pn_event p) (pn_tier_idx p)
           (pn_qty p) (pn_chain p)"
  using assms
  by (auto simp add: complete_check_def request_resolves_def
        split: option.splits if_splits)

lemma complete_on_enough:
  assumes "complete_check d sess data = Inr p" and "encodable p"
    and "2 + nat (pn_qty p) \<le> n"
  shows "complete_on n d sess data now = complete d sess data now"
  using assms by (simp add: complete_on_def complete_two_phase)

lemma complete_on_cases:
  assumes "complete_on n d sess data now = (d', res)"
  shows "(\<exists>e. complete_check d sess data = Inl e \<and> d' = d \<and> res = Inl e)
       \<or> (\<exists>p. complete_check d sess data = Inr p \<and> \<not> encodable p \<and> d' = d
                \<and> res = Inl unhandled_exception)
       \<or> (\<exists>p. complete_check d sess data = Inr p \<and> encodable p
                \<and> n < 2 + nat (pn_qty p) \<and> d' = write_prefix n d data p now
                \<and> res = Inl unhandled_exception)
       \<or> (\<exists>p. complete_check d sess data = Inr p \<and> encodable p
                \<and> 2 + nat (pn_qty p) \<le> n \<and> complete d sess data now = (d', res))"
proof (cases "complete_check d sess data")
  case (Inl e)
  with assms have "d' = d" "res = Inl e" by (simp_all add: complete_on_def)
  with Inl show ?thesis by simp
next
  case (Inr p)
  show ?thesis
  proof (cases "encodable p")
    case False
    with assms Inr have "d' = d" "res = Inl unhandled_exception"
      by (simp_all add: complete_on_def)
    with Inr False show ?thesis by simp
  next
    case True
    show ?thesis
    proof (cases "n < 2 + nat (pn_qty p)")
      case less: True
      with assms Inr True have "d' = write_prefix n d data p now"
        "res = Inl unhandled_exception"
        by (simp_all add: complete_on_def)
      with Inr True less show ?thesis by simp
    next
      case False
      then have le: "2 + nat (pn_qty p) \<le> n" by simp
      from complete_on_enough [OF Inr True le, of now] assms
      have "complete d sess data now = (d', res)" by simp
      with Inr True le show ?thesis by simp
    qed
  qed
qed














subsection \<open>Network of a claim\<close>

lemma complete_check_chain:
  assumes "c \<noteq> 0" and "c' \<noteq> 0"
  shows "complete_check d sess (data\<lparr>r_chainId := Num c'\<rparr>)
           = map_sum id (\<lambda>p. p\<lparr>pn_chain := c'\<rparr>)
               (complete_check d sess (data\<lparr>r_chainId := Num c\<rparr>))"
  using assms
  by (simp add: complete_check_def int_or_def split: option.splits num_field.splits)

lemma complete_check_chain_id:
  assumes "complete_check d sess (data\<lparr>r_chainId := Num c\<rparr>) = Inr p"
  shows "pn_chain p = c"
  using complete_check_pending [OF assms] by (simp add: request_resolves_def int_or_def)

lemma complete_on_chain:
  assumes "c \<noteq> 0" and "c' \<noteq> 0" and "bson_int c" and "bson_int c'"
  shows "snd (complete_on n d sess (data\<lparr>r_chainId := Num c\<rparr>) now)
           = snd (complete_on n d sess (data\<lparr>r_chainId := Num c'\<rparr>) now)"
proof (cases "complete_check d sess (data\<lparr>r_chainId := Num c\<rparr>)")
  case (Inl e)
  with complete_check_chain [OF assms(1,2), of d sess data]
  have "complete_check d sess (data\<lparr>r_chainId := Num c'\<rparr>) = Inl e" by simp
  with Inl show ?thesis by (simp add: complete_on_def)
next
  case (Inr p)
  with complete_check_chain [OF assms(1,2), of d sess data]
  have other: "complete_check d sess (data\<lparr>r_chainId := Num c'\<rparr>) = Inr (p\<lparr>pn_chain := c'\<rparr>)"
    by simp
  from complete_check_chain_id [OF Inr] assms(3,4)
  have enc: "encodable (p\<lparr>pn_chain := c'\<rparr>) = encodable p"
    by (simp add: encodable_def)
  show ?thesis
    by (simp add: complete_on_def Inr other enc complete_write_def purchase_fst(8))
qed

lemma complete_on_success:
  assumes "complete_on n d sess data now = (d', Inr ok)"
  shows "complete d sess data now = (d', Inr ok)"
  using complete_on_cases [OF assms] by auto

lemma complete_on_unencodable:
  assumes "\<not> bson_int c"
  shows "fst (complete_on n d sess (data\<lparr>r_chainId := Num c\<rparr>) now) = d
         \<and> isl (snd (complete_on n d sess (data\<lparr>r_chainId := Num c\<rparr>) now))"
proof (cases "complete_check d sess (data\<lparr>r_chainId := Num c\<rparr>)")
  case (Inl e)
  then show ?thesis by (simp add: complete_on_def)
next
  case (Inr p)
  from complete_check_chain_id [OF Inr] assms have "\<not> encodable p"
    by (simp add: encodable_def)
  with Inr show ?thesis by (simp add: complete_on_def)
qed

text \<open>
  Claim C7, as amended. \<^verbatim>\<open>complete\<close> does not compare the chain identifier of a claim
  with the configured network: two claims that differ only in a non-zero chain identifier
  that fits a signed 64-bit integer get the same answer, and a successful call stores the
  claimed chain identifier in the payment and in the transaction. A chain identifier that
  does not fit a signed 64-bit integer is never accepted: the call ends with an error and
  the database is left as it was.
\<close>

theorem complete_accepts_any_network:
  "(c \<noteq> 0 \<and> c' \<noteq> 0 \<and> bson_int c \<and> bson_int c'
      \<longrightarrow> snd (complete_on n d sess (data\<lparr>r_chainId := Num c\<rparr>) now)
            = snd (complete_on n d sess (data\<lparr>r_chainId := Num c'\<rparr>) now))
   \<and> (\<forall>d' ok. complete_on n d sess (data\<lparr>r_chainId := Num c\<rparr>) now = (d', Inr ok)
         \<longrightarrow> bson_int c
             \<and> pay_chain_id (last (payments d')) = c
             \<and> tx_chain_id (last (transactions d')) = c)
   \<and> (\<not> bson_int c
         \<longrightarrow> fst (complete_on n d sess (data\<lparr>r_chainId := Num c\<rparr>) now) = d
             \<and> isl (snd (complete_on n d sess (data\<lparr>r_chainId := Num c\<rparr>) now)))"
proof (intro conjI impI allI)
  assume "c \<noteq> 0 \<and> c' \<noteq> 0 \<and> bson_int c \<and> bson_int c'"
  then show "snd (complete_on n d sess (data\<lparr>r_chainId := Num c\<rparr>) now)
               = snd (complete_on n d sess (data\<lparr>r_chainId := Num c'\<rparr>) now)"
    by (simp add: complete_on_chain)
next
  fix d' ok
  assume run: "complete_on n d sess (data\<lparr>r_chainId := Num c\<rparr>) now = (d', Inr ok)"
  show "bson_int c"
  proof (rule ccontr)
    assume "\<not> bson_int c"
    from complete_on_unencodable [OF this, of n d sess data now] run show False by simp
  qed
next
  fix d' ok
  assume run: "complete_on n d sess (data\<lparr>r_chainId := Num c\<rparr>) now = (d', Inr ok)"
  from complete_on_success [OF run] obtain a oid ev ti q c0 where
    res: "request_resolves d sess (data\<lparr>r_chainId := Num c\<rparr>) a oid ev ti q c0"
    and rp: "record_purchase d a (data\<lparr>r_chainId := Num c\<rparr>) oid ev ti q c0 now = (d', ok)"
    using complete_success_resolves by blast
  from res have c0: "c0 = c" by (simp add: request_resolves_def int_or_def)
  show "pay_chain_id (last (payments d')) = c"
    by (simp add: c0 record_purchase_db(1) [OF rp] pay_doc_def Let_def)
  show "tx_chain_id (last (transactions d')) = c"
    by (simp add: c0 record_purchase_db(2) [OF rp] tx_doc_def Let_def)
next
  assume "\<not> bson_int c"
  then show "fst (complete_on n d sess (data\<lparr>r_chainId := Num c\<rparr>) now) = d"
    by (simp add: complete_on_unencodable)
next
  assume "\<not> bson_int c"
  then show "isl (snd (complete_on n d sess (data\<lparr>r_chainId := Num c\<rparr>) now))"
    by (simp add: complete_on_unencodable)
qed

lemma ex_other_network:
  "complete_on 3 ex_db ex_session (ex_request\<lparr>r_chainId := Num 1\<rparr>) 0
     = (fst (record_purchase ex_db ''u1'' (ex_request\<lparr>r_chainId := Num 1\<rparr>) ex_oid ex_event
               0 1 1 0),
        Inr \<lparr>ok_payment_id = 0, ok_base_payment_id = Some ''pay_1''\<rparr>)"
proof -
  have res: "request_resolves ex_db ex_session (ex_request\<lparr>r_chainId := Num 1\<rparr>)
               ''u1'' ex_oid ex_event 0 1 1"
    using ex_resolves_one by (simp add: request_resolves_def int_or_def)
  have amt: "\<not> amount_rejected (ev_tiers ex_event ! nat 0) 1
                 (r_amountUSDC (ex_request\<lparr>r_chainId := Num 1\<rparr>))"
    using ex_amount_ok by (simp add: ex_event_def ex_request_def)
  have fits: "\<not> 1 > a_available (tier_availability ex_db ex_oid 0 (ev_tiers ex_event ! nat 0))"
    using ex_fits by simp
  have chk: "complete_check ex_db ex_session (ex_request\<lparr>r_chainId := Num 1\<rparr>)
               = Inr \<lparr>pn_attendee = ''u1'', pn_oid = ex_oid, pn_event = ex_event,
                      pn_tier_idx = 0, pn_qty = 1, pn_chain = 1\<rparr>"
    using fits amt by (simp add: complete_check_resolved [OF res])
  have "complete_on 3 ex_db ex_session (ex_request\<lparr>r_chainId := Num 1\<rparr>) 0
          = complete ex_db ex_session (ex_request\<lparr>r_chainId := Num 1\<rparr>) 0"
    by (rule complete_on_enough [OF chk]) (simp_all add: encodable_def bson_int_def)
  with complete_accepted [OF res ex_fits amt, of 0] show ?thesis
    by (simp add: ex_strings or_none_def ex_db_def)
qed

text \<open>
  The configured network is Base main net, chain 8453, which is also the chain of the quote
  that \<^verbatim>\<open>start\<close> hands out. The example claim sent with chain identifier 1 is accepted:
  a payment with chain 1 and a ticket are written.
\<close>

theorem network_mismatch_counterexample:
  "map_option chain_id (NETS ACTIVE_NETWORK) = Some 8453
   \<and> map_sum id q_chain_id (snd (start ex_db ex_session (Some ex_oid) (Num 0) (Num 1) 0))
       = Inr 8453
   \<and> snd (complete_on 3 ex_db ex_session (ex_request\<lparr>r_chainId := Num 1\<rparr>) 0)
       = Inr \<lparr>ok_payment_id = 0, ok_base_payment_id = Some ''pay_1''\<rparr>
   \<and> map pay_chain_id
         (payments (fst (complete_on 3 ex_db ex_session (ex_request\<lparr>r_chainId := Num 1\<rparr>) 0)))
       = [1]
   \<and> map tk_payment_id
         (tickets (fst (complete_on 3 ex_db ex_session (ex_request\<lparr>r_chainId := Num 1\<rparr>) 0)))
       = [0]"
  by (simp add: ex_quote ex_other_network purchase_fst ticket_doc_def pay_doc_def Let_def)
     (simp add: NETS_def ACTIVE_NETWORK_def ex_db_def)

theorem complete_accepts_any_network_witness:
  "(1::int) \<noteq> 0 \<and> (8453::int) \<noteq> 0 \<and> bson_int 1 \<and> bson_int 8453
   \<and> \<not> bson_int (2 ^ 63)
   \<and> snd (complete_on 3 ex_db ex_session (ex_request\<lparr>r_chainId := Num 1\<rparr>) 0)
       = Inr \<lparr>ok_payment_id = 0, ok_base_payment_id = Some ''pay_1''\<rparr>
   \<and> snd (complete_on 3 ex_db ex_session (ex_request\<lparr>r_chainId := Num 8453\<rparr>) 0)
       = Inr \<lparr>ok_payment_id = 0, ok_base_payment_id = Some ''pay_1''\<rparr>
   \<and> pay_chain_id
         (last (payments
            (fst (complete_on 3 ex_db ex_session (ex_request\<lparr>r_chainId := Num 1\<rparr>) 0))))
       = 1
   \<and> fst (complete_on 3 ex_db ex_session (ex_request\<lparr>r_chainId := Num (2 ^ 63)\<rparr>) 0) = ex_db
   \<and> isl (snd (complete_on 3 ex_db ex_session (ex_request\<lparr>r_chainId := Num (2 ^ 63)\<rparr>) 0))"
proof -
  have ne: "(1::int) \<noteq> 0 \<and> (8453::int) \<noteq> 0 \<and> bson_int 1 \<and> bson_int 8453"
    by (simp add: bson_int_def)
  have big: "\<not> bson_int (2 ^ 63)" by (simp add: bson_int_def)
  have run: "complete_on 3 ex_db ex_session (ex_request\<lparr>r_chainId := Num 1\<rparr>) 0
               = (fst (complete_on 3 ex_db ex_session (ex_request\<lparr>r_chainId := Num 1\<rparr>) 0),
                  Inr \<lparr>ok_payment_id = 0, ok_base_payment_id = Some ''pay_1''\<rparr>)"
    by (simp add: ex_other_network)
  have one: "snd (complete_on 3 ex_db ex_session (ex_request\<lparr>r_chainId := Num 1\<rparr>) 0)
               = Inr \<lparr>ok_payment_id = 0, ok_base_payment_id = Some ''pay_1''\<rparr>"
    by (simp add: ex_other_network)
  note any = complete_accepts_any_network [of 1 8453 3 ex_db ex_session ex_request 0]
  note far = complete_accepts_any_network [of "2 ^ 63" 8453 3 ex_db ex_session ex_request 0]
  from any [THEN conjunct1] ne
  have same: "snd (complete_on 3 ex_db ex_session (ex_request\<lparr>r_chainId := Num 1\<rparr>) 0)
                = snd (complete_on 3 ex_db ex_session (ex_request\<lparr>r_chainId := Num 8453\<rparr>) 0)"
    by (rule mp)
  from any [THEN conjunct2, THEN conjunct1] run
  have stored: "pay_chain_id
         (last (payments
            (fst (complete_on 3 ex_db ex_session (ex_request\<lparr>r_chainId := Num 1\<rparr>) 0))))
       = 1"
    by blast
  from far [THEN conjunct2, THEN conjunct2] big
  have refused:
    "fst (complete_on 3 ex_db ex_session (ex_request\<lparr>r_chainId := Num (2 ^ 63)\<rparr>) 0) = ex_db
     \<and> isl (snd (complete_on 3 ex_db ex_session (ex_request\<lparr>r_chainId := Num (2 ^ 63)\<rparr>) 0))"
    by (rule mp)
  from ne big one same stored refused show ?thesis by simp
qed

subsection \<open>The error of a rounding\<close>













subsection \<open>The amount check\<close>















text \<open>
  Two more claims against the example tier. Quoted amount 20 for two units, claimed amount
  20.000001: the doubles of the two amounts are more than the double of \<open>10\<^sup>-\<^sup>6\<close> apart
  and the claim is refused. Quoted amount 10, claimed amount \<^verbatim>\<open>nan\<close>: no comparison with
  \<^verbatim>\<open>nan\<close> holds and the claim is accepted.
\<close>

lemma ex_boundary_rejected:
  "amount_rejected ex_tier 2 (Amount (20000001 / 1000000))"
  by (simp add: amount_rejected_def ex_tier_def ex_amounts fl_micro paid_amount_of_def)
     (simp add: fl_eval)

lemma ex_nan_accepted:
  "\<not> amount_rejected ex_tier 1 AmountNaN"
  by (simp add: amount_rejected_def ex_tier_def ex_amounts paid_amount_of_def)





end
